theory Spec2Isabelle
  imports Main "HOL-Library.Word"
begin

section \<open>Errors\<close>

text \<open>
  The package-level sentinel errors of \<^verbatim>\<open>engine/connection_manager.go\<close> are constructors of
  their own. \<open>errors_New\<close> stands for any other error made with \<^verbatim>\<open>errors.New\<close> (identified by
  its text), \<open>Errorf_w\<close> for \<^verbatim>\<open>fmt.Errorf\<close> with a \<^verbatim>\<open>%w\<close> verb: it carries the format string
  and the error it wraps.
\<close>

datatype error =
    ErrSubSystemAlreadyStarted
  | ErrSubSystemNotStarted
  | ErrNilSubsystem
  | errNilWaitGroup
  | errNilExchangeManager
  | errNilDatabaseConnectionManager
  | errNilConfig
  | errConnectionCheckerIsNil
  | errors_New string
  | Errorf_w string error

text \<open>\<^verbatim>\<open>errors.Is\<close>: the error itself or an error it wraps, at any depth, is the target.\<close>

fun errors_Is :: "error \<Rightarrow> error \<Rightarrow> bool" where
  "errors_Is (Errorf_w s e) t = (Errorf_w s e = t \<or> errors_Is e t)"
| "errors_Is e t = (e = t)"

text \<open>
  How a call ends: it returns a value, or it panics (a nil pointer dereference), or it never
  returns (a wait that is never released).
\<close>

datatype 'a outcome = Returns 'a | Panics | Blocks

section \<open>Events\<close>

text \<open>
  What a call does beyond changing the state it owns is recorded as a list of events, in
  program order. Log calls carry their message or format string (and the error argument, for
  the calls that log one); the sublogger argument is not recorded. \<open>Call\<close> is a call,
  named as the source writes it: of a collaborator whose code is outside the source files, or
  of the connection manager from the engine, whose own events then follow. \<open>Go\<close> is a
  \<^verbatim>\<open>go\<close> statement, whose body runs concurrently and is not followed. \<open>Lock\<close> and \<open>Unlock\<close>
  are those of \<^verbatim>\<open>newEngineMutex\<close>.
\<close>

type_synonym Checker = nat

datatype event =
    Debugln string
  | Debugf string
  | Info string
  | Errorf string error
  | Errorln string
  | log_Printf string error
  | connchecker_New_call "string list option" "string list option" "64 word"
  | Shutdown Checker
  | Call string
  | Go string
  | Lock
  | Unlock
  | ServicesWG_Wait

section \<open>The connection manager\<close>

text \<open>
  \<^verbatim>\<open>config.ConnectionMonitorConfig\<close>. A Go slice may be nil, which the code tests, so a slice
  field is an option; \<^verbatim>\<open>time.Duration\<close> is an \<^verbatim>\<open>int64\<close>, here a 64-bit word
  (the code only compares it with zero).
\<close>

record ConnectionMonitorConfig =
  DNSList :: "string list option"
  PublicDomainList :: "string list option"
  CheckInterval :: "64 word"

text \<open>
  Package \<^verbatim>\<open>connchecker\<close> is not among the source files. Its three default values are a
  parameter of \<open>setupConnectionManager\<close>, and its constructor \<^verbatim>\<open>New\<close> is a parameter of
  \<open>connectionManager_Start\<close>: a function from the three arguments to the pair (checker, error)
  that the call returns. A \<open>Checker\<close> is an opaque handle.
\<close>

record connchecker_defaults =
  DefaultDNSList :: "string list option"
  DefaultDomainList :: "string list option"
  DefaultCheckInterval :: "64 word"

type_synonym connchecker_New =
  "string list option \<Rightarrow> string list option \<Rightarrow> 64 word \<Rightarrow> Checker option \<times> error option"

text \<open>
  \<^verbatim>\<open>type connectionManager struct\<close>. \<open>started\<close> is the \<^verbatim>\<open>int32\<close> flag, a 32-bit word
  (the code only stores and compares 0 and 1); \<open>conn\<close> and \<open>cfg\<close> are
  pointers, \<open>None\<close> when nil. \<open>cfg\<close> holds the configuration the pointer leads to: the manager
  shares that object with its caller, and nothing modelled here writes to it after
  \<open>setupConnectionManager\<close>.
\<close>

record connectionManager =
  started :: "32 word"
  conn :: "Checker option"
  cfg :: "ConnectionMonitorConfig option"

text \<open>
  \<^verbatim>\<open>atomic.LoadInt32\<close> and \<^verbatim>\<open>atomic.CompareAndSwapInt32\<close> on one memory cell, for one thread of
  execution: the new content of the cell and whether the swap happened.
\<close>

definition LoadInt32 :: "32 word \<Rightarrow> 32 word" where
  "LoadInt32 v = v"

definition CompareAndSwapInt32 :: "32 word \<Rightarrow> 32 word \<Rightarrow> 32 word \<Rightarrow> 32 word \<times> bool" where
  "CompareAndSwapInt32 v old new = (if v = old then (new, True) else (v, False))"

text \<open>\<^verbatim>\<open>func (m *connectionManager) IsRunning() bool\<close>; the receiver may be nil.\<close>

definition connectionManager_IsRunning :: "connectionManager option \<Rightarrow> bool" where
  "connectionManager_IsRunning m =
     (case m of None \<Rightarrow> False | Some m0 \<Rightarrow> LoadInt32 (started m0) = 1)"

text \<open>
  \<^verbatim>\<open>func setupConnectionManager(cfg *config.ConnectionMonitorConfig)\<close>. The result is the pair
  (manager, error) the function returns, and the configuration object behind \<open>cfg\<close> as the call
  leaves it (the defaults are written into the caller's object).
\<close>

definition setupConnectionManager ::
  "connchecker_defaults \<Rightarrow> ConnectionMonitorConfig option \<Rightarrow>
     (connectionManager option \<times> error option) \<times> ConnectionMonitorConfig option" where
  "setupConnectionManager pkg cfg0 =
     (case cfg0 of
        None \<Rightarrow> ((None, Some errNilConfig), None)
      | Some c \<Rightarrow>
          let c1 = (if DNSList c = None then c\<lparr>DNSList := DefaultDNSList pkg\<rparr> else c);
              c2 = (if PublicDomainList c1 = None
                    then c1\<lparr>PublicDomainList := DefaultDomainList pkg\<rparr> else c1);
              c3 = (if CheckInterval c2 = 0
                    then c2\<lparr>CheckInterval := DefaultCheckInterval pkg\<rparr> else c2)
          in ((Some \<lparr>started = 0, conn = None, cfg = Some c3\<rparr>, None), Some c3))"

text \<open>
  \<^verbatim>\<open>func (m *connectionManager) Start() error\<close>. The result is how the call ends, the manager
  afterwards and the events. Reading \<^verbatim>\<open>m.cfg.DNSList\<close> through a nil \<open>cfg\<close> panics, after the
  flag was set and before \<^verbatim>\<open>connchecker.New\<close> is called. \<^verbatim>\<open>m.conn\<close> is assigned whatever
  \<^verbatim>\<open>New\<close> returns, also when it returns an error.
\<close>

definition connectionManager_Start ::
  "connchecker_New \<Rightarrow> connectionManager option \<Rightarrow>
     error option outcome \<times> connectionManager option \<times> event list" where
  "connectionManager_Start new m =
     (case m of
        None \<Rightarrow> (Returns (Some (Errorf_w ''connection manager %w'' ErrNilSubsystem)), None, [])
      | Some m0 \<Rightarrow>
          (case CompareAndSwapInt32 (started m0) 0 1 of
             (s1, False) \<Rightarrow>
               (Returns (Some (Errorf_w ''connection manager %w'' ErrSubSystemAlreadyStarted)),
                Some m0, [])
           | (s1, True) \<Rightarrow>
               let m1 = m0\<lparr>started := s1\<rparr> in
               (case cfg m1 of
                  None \<Rightarrow> (Panics, Some m1, [Debugln ''Connection manager starting...''])
                | Some c \<Rightarrow>
                    (case new (DNSList c) (PublicDomainList c) (CheckInterval c) of
                       (ck, err) \<Rightarrow>
                         let m2 = m1\<lparr>conn := ck\<rparr>;
                             ev = [Debugln ''Connection manager starting...'',
                                   connchecker_New_call (DNSList c) (PublicDomainList c)
                                     (CheckInterval c)]
                         in (case err of
                               Some e \<Rightarrow>
                                 (Returns (Some e),
                                  Some (m2\<lparr>started :=
                                     fst (CompareAndSwapInt32 (started m2) 1 0)\<rparr>),
                                  ev)
                             | None \<Rightarrow>
                                 (Returns None, Some m2,
                                  ev @ [Debugln ''Connection manager started.'']))))))"

text \<open>
  \<^verbatim>\<open>func (m *connectionManager) Stop() error\<close>. The deferred compare-and-swap runs on both
  paths that follow the \<^verbatim>\<open>defer\<close> statement, after the return value is fixed.
\<close>

definition connectionManager_Stop ::
  "connectionManager option \<Rightarrow> error option outcome \<times> connectionManager option \<times> event list" where
  "connectionManager_Stop m =
     (case m of
        None \<Rightarrow> (Returns (Some (Errorf_w ''connection manager: %w'' ErrNilSubsystem)), None, [])
      | Some m0 \<Rightarrow>
          if LoadInt32 (started m0) = 0
          then (Returns (Some (Errorf_w ''connection manager: %w'' ErrSubSystemNotStarted)),
                Some m0, [])
          else
            let deferred = (\<lambda>x. x\<lparr>started := fst (CompareAndSwapInt32 (started x) 1 0)\<rparr>) in
            (case conn m0 of
               None \<Rightarrow>
                 (Returns (Some (Errorf_w ''connection manager: %w'' errConnectionCheckerIsNil)),
                  Some (deferred m0), [])
             | Some c \<Rightarrow>
                 (Returns None, Some (deferred m0),
                  [Debugln ''Connection manager shutting down...'', Shutdown c,
                   Debugln ''Connection manager stopped.''])))"

section \<open>Flags\<close>

text \<open>
  \<^verbatim>\<open>type FlagSet map[string]bool\<close>; reading a key that is absent (or reading a nil map) gives
  \<^verbatim>\<open>false\<close>.
\<close>

type_synonym FlagSet = "string \<rightharpoonup> bool"

definition FlagSet_index :: "FlagSet \<Rightarrow> string \<Rightarrow> bool" where
  "FlagSet_index f key = (case f key of None \<Rightarrow> False | Some v \<Rightarrow> v)"

text \<open>
  \<^verbatim>\<open>func (f FlagSet) WithBool(key string, flagValue *bool, configValue bool)\<close>. \<open>flagValue\<close> is
  the pointer (\<open>None\<close> when nil) with the boolean it leads to; the result is that boolean after
  the call. Storing through a nil pointer panics.
\<close>

definition WithBool :: "FlagSet \<Rightarrow> string \<Rightarrow> bool option \<Rightarrow> bool \<Rightarrow> bool outcome" where
  "WithBool f key flagValue configValue =
     (let isSet = FlagSet_index f key in
      case flagValue of
        None \<Rightarrow> Panics
      | Some v \<Rightarrow> Returns (\<not> isSet \<and> configValue \<or> isSet \<and> v))"

section \<open>The engine\<close>

text \<open>
  The managers of the engine whose code is outside the source files, named by the field of
  \<^verbatim>\<open>Engine\<close> that holds them. A manager is held through a pointer to an opaque handle.
\<close>

datatype manager =
    DatabaseManager
  | ntpManager
  | CommunicationsManager
  | portfolioManager
  | dataHistoryManager
  | WithdrawManager
  | apiServer
  | DepositAddressManager
  | OrderManager
  | currencyPairSyncer
  | eventManager
  | websocketRoutineManager
  | gctScriptManager
  | currencyStateManager

type_synonym handle = nat

type_synonym portfolio_Base = "string list"

text \<open>
  \<^verbatim>\<open>Settings\<close> and \<^verbatim>\<open>config.Config\<close>, with the fields that \<^verbatim>\<open>Engine.Start\<close> and \<^verbatim>\<open>Engine.Stop\<close>
  branch on or write. \<open>Logging_Enabled\<close> is \<^verbatim>\<open>Logging.Enabled\<close>, a pointer to a boolean.
\<close>

record Settings =
  EnableDatabaseManager :: bool
  EnableDispatcher :: bool
  EnableConnectivityMonitor :: bool
  EnableNTPClient :: bool
  ExchangePurgeCredentials :: bool
  EnableCommsRelayer :: bool
  EnableGRPC :: bool
  EnablePortfolioManager :: bool
  EnableDataHistoryManager :: bool
  EnableDeprecatedRPC :: bool
  EnableWebsocketRPC :: bool
  EnableDepositAddressManager :: bool
  EnableOrderManager :: bool
  EnableExchangeSyncManager :: bool
  EnableEventManager :: bool
  EnableWebsocketRoutine :: bool
  EnableGCTScriptManager :: bool
  EnableCurrencyStateManager :: bool
  EnableDryRun :: bool

record Config =
  ConnectionMonitor :: ConnectionMonitorConfig
  NTPClient_Level :: int
  Logging_Enabled :: "bool option"
  Logging_Output :: string
  Portfolio :: portfolio_Base

text \<open>
  \<^verbatim>\<open>type Engine struct\<close>. \<open>Config\<close> is the configuration behind the engine's \<^verbatim>\<open>Config\<close>
  pointer, which is taken to be non-nil, as \<^verbatim>\<open>New\<close> and \<^verbatim>\<open>NewFromSettings\<close> leave it.
  \<open>managers\<close> gathers the manager fields whose types are outside the source files. The
  counter inside \<^verbatim>\<open>ServicesWG\<close> is not a field here; see \<open>ServicesWG_drains\<close> below.
\<close>

record Engine =
  Config :: Config
  connectionManager :: "connectionManager option"
  managers :: "manager \<Rightarrow> handle option"
  Settings :: Settings
  uptime :: int

text \<open>
  What the collaborators outside the source files do during one run of \<^verbatim>\<open>Engine.Start\<close> or
  \<^verbatim>\<open>Engine.Stop\<close>, as parameters. A collaborator call is named as the source writes it;
  \<open>returns_handle\<close> is the pointer it returns, \<open>returns_error\<close> the error it returns,
  \<open>returns_bool\<close> the boolean it returns. Every such call is taken to return (it does not
  panic or block), on a nil receiver too. \<open>ServicesWG_drains\<close> says whether the counter of
  \<^verbatim>\<open>bot.ServicesWG\<close> reaches zero, so that \<^verbatim>\<open>Wait\<close> returns.
\<close>

record world =
  returns_handle :: "string \<Rightarrow> handle option"
  returns_error :: "string \<Rightarrow> error option"
  returns_bool :: "string \<Rightarrow> bool"
  connchecker_values :: connchecker_defaults
  connchecker_New :: connchecker_New
  SetNTPCheck :: "Config \<Rightarrow> (string \<times> error option) \<times> Config"
  addresses_of :: "handle \<Rightarrow> string list"
  portfolio_of :: "handle \<Rightarrow> portfolio_Base option"
  time_Now :: int
  ServicesWG_drains :: bool

text \<open>
  A function body is a list of steps. A step takes the engine and gives: \<open>None\<close> when control
  falls through to the next statement, or how the function ends there; the engine afterwards;
  the events of the step. \<open>run\<close> executes the steps in order up to the first that ends the
  function.
\<close>

type_synonym 'r step = "Engine \<Rightarrow> 'r outcome option \<times> Engine \<times> event list"

fun run :: "'r step list \<Rightarrow> 'r step" where
  "run [] b = (None, b, [])"
| "run (s # ss) b =
     (case s b of
        (None, b1, t1) \<Rightarrow> (case run ss b1 of (r, b2, t2) \<Rightarrow> (r, b2, t1 @ t2))
      | (Some r, b1, t1) \<Rightarrow> (Some r, b1, t1))"

text \<open>
  \<^verbatim>\<open>newEngineMutex.Lock(); defer newEngineMutex.Unlock()\<close> around a body whose last statement
  returns \<open>v\<close>: the deferred unlock runs when the body returns or panics, not when it blocks.
\<close>

definition locked ::
  "'r \<Rightarrow> 'r outcome option \<times> Engine \<times> event list \<Rightarrow> 'r outcome \<times> Engine option \<times> event list" where
  "locked v res =
     (case res of
        (None, b, t) \<Rightarrow> (Returns v, Some b, Lock # t @ [Unlock])
      | (Some Blocks, b, t) \<Rightarrow> (Blocks, Some b, Lock # t)
      | (Some r, b, t) \<Rightarrow> (r, Some b, Lock # t @ [Unlock]))"

text \<open>A collaborator call whose error is logged with \<^verbatim>\<open>gctlog.Errorf\<close> and otherwise dropped.\<close>

definition call_logging_error :: "world \<Rightarrow> string \<Rightarrow> string \<Rightarrow> event list" where
  "call_logging_error w name msg =
     Call name # (case returns_error w name of None \<Rightarrow> [] | Some e \<Rightarrow> [Errorf msg e])"

text \<open>
  The pattern of most subsystems in \<^verbatim>\<open>Engine.Start\<close>:
  \<^verbatim>\<open>if enabled { bot.X, err = SetupX(...); if err != nil { Errorf(setup_msg, err) } else
  { err = bot.X.Start(...); if err != nil { Errorf(start_msg, err) } } }\<close>.
\<close>

definition setup_and_start ::
  "world \<Rightarrow> (Engine \<Rightarrow> bool) \<Rightarrow> manager \<Rightarrow> string \<Rightarrow> string \<Rightarrow> string \<Rightarrow> string \<Rightarrow> 'r step" where
  "setup_and_start w enabled mgr setup_name setup_msg start_name start_msg b =
     (if enabled b then
        let b1 = b\<lparr>managers := (managers b)(mgr := returns_handle w setup_name)\<rparr> in
        (case returns_error w setup_name of
           Some e \<Rightarrow> (None, b1, [Call setup_name, Errorf setup_msg e])
         | None \<Rightarrow> (None, b1, Call setup_name # call_logging_error w start_name start_msg))
      else (None, b, []))"

subsection \<open>Engine.Start\<close>

text \<open>Lines 131 to 141: the database manager.\<close>

definition start_DatabaseManager :: "world \<Rightarrow> 'r step" where
  "start_DatabaseManager w =
     setup_and_start w (\<lambda>b. EnableDatabaseManager (Settings b)) DatabaseManager
       ''SetupDatabaseConnectionManager'' ''Database manager unable to setup: %v''
       ''bot.DatabaseManager.Start'' ''Database manager unable to start: %v''"

text \<open>Lines 143 to 147: the dispatcher.\<close>

definition start_Dispatcher :: "world \<Rightarrow> 'r step" where
  "start_Dispatcher w b =
     (if EnableDispatcher (Settings b)
      then (None, b, call_logging_error w ''dispatch.Start'' ''Dispatcher unable to start: %v'')
      else (None, b, []))"

text \<open>
  Lines 150 to 160: the connectivity monitor, on \<^verbatim>\<open>&bot.Config.ConnectionMonitor\<close>. The
  defaults that \<open>setupConnectionManager\<close> writes land in the engine's configuration.
\<close>

definition start_connectionManager :: "world \<Rightarrow> 'r step" where
  "start_connectionManager w b =
     (if EnableConnectivityMonitor (Settings b) then
        (case setupConnectionManager (connchecker_values w) (Some (ConnectionMonitor (Config b))) of
           ((m, err), c') \<Rightarrow>
             let b1 = b\<lparr>connectionManager := m,
                        Config := (Config b)\<lparr>ConnectionMonitor :=
                          (case c' of None \<Rightarrow> ConnectionMonitor (Config b) | Some x \<Rightarrow> x)\<rparr>\<rparr>
             in (case err of
                   Some e \<Rightarrow>
                     (None, b1,
                      [Call ''setupConnectionManager'',
                       Errorf ''Connection manager unable to setup: %v'' e])
                 | None \<Rightarrow>
                     (case connectionManager_Start (connchecker_New w) m of
                        (r, m', t) \<Rightarrow>
                          let b2 = b1\<lparr>connectionManager := m'\<rparr>;
                              ev = Call ''setupConnectionManager''
                                   # Call ''bot.connectionManager.Start'' # t
                          in (case r of
                                Returns None \<Rightarrow> (None, b2, ev)
                              | Returns (Some e) \<Rightarrow>
                                  (None, b2,
                                   ev @ [Errorf ''Connection manager unable to start: %v'' e])
                              | Panics \<Rightarrow> (Some Panics, b2, ev)
                              | Blocks \<Rightarrow> (Some Blocks, b2, ev)))))
      else (None, b, []))"

text \<open>
  Lines 162 to 175: the NTP client. \<^verbatim>\<open>SetNTPCheck\<close> is a method of the configuration and may
  change it. The argument \<^verbatim>\<open>*bot.Config.Logging.Enabled\<close> of \<^verbatim>\<open>setupNTPManager\<close> panics on a
  nil pointer.
\<close>

definition start_NTPClient :: "world \<Rightarrow> error option step" where
  "start_NTPClient w b =
     (if EnableNTPClient (Settings b) then
        (case (if NTPClient_Level (Config b) = 0
               then (case SetNTPCheck w (Config b) of
                       ((responseMessage, err), c') \<Rightarrow>
                         (err, b\<lparr>Config := c'\<rparr>,
                          [Call ''bot.Config.SetNTPCheck'']
                          @ (if err = None then [Info responseMessage] else [])))
               else (None, b, [])) of
           (Some e, b1, t1) \<Rightarrow>
             (Some (Returns (Some (Errorf_w ''unable to set NTP check: %w'' e))), b1, t1)
         | (None, b1, t1) \<Rightarrow>
             (case Logging_Enabled (Config b1) of
                None \<Rightarrow> (Some Panics, b1, t1)
              | Some enabled \<Rightarrow>
                  (None,
                   b1\<lparr>managers := (managers b1)(ntpManager := returns_handle w ''setupNTPManager'')\<rparr>,
                   t1 @ call_logging_error w ''setupNTPManager''
                          ''NTP manager unable to start: %s'')))
      else (None, b, []))"

text \<open>\<^verbatim>\<open>strings.Contains\<close>.\<close>

fun strings_HasPrefix :: "string \<Rightarrow> string \<Rightarrow> bool" where
  "strings_HasPrefix s [] = True"
| "strings_HasPrefix [] (c # cs) = False"
| "strings_HasPrefix (x # xs) (c # cs) = (x = c \<and> strings_HasPrefix xs cs)"

fun strings_Contains :: "string \<Rightarrow> string \<Rightarrow> bool" where
  "strings_Contains [] sub = (sub = [])"
| "strings_Contains (x # xs) sub = (strings_HasPrefix (x # xs) sub \<or> strings_Contains xs sub)"

text \<open>
  Lines 177 to 202: the start-up report. Format strings are written without their newline and
  tab escapes. \<^verbatim>\<open>*bot.Config.Logging.Enabled\<close> panics on a nil pointer.
\<close>

definition start_report :: "world \<Rightarrow> 'r step" where
  "start_report w b =
     (let b1 = b\<lparr>uptime := time_Now w\<rparr>;
          t1 = [Debugf ''Bot '%s' started.'', Debugf ''Using data dir: %s'']
      in case Logging_Enabled (Config b1) of
           None \<Rightarrow> (Some Panics, b1, t1)
         | Some enabled \<Rightarrow>
             (None, b1,
              t1
              @ (if enabled \<and> strings_Contains (Logging_Output (Config b1)) ''file''
                 then [Debugf ''Using log file: %s''] else [])
              @ [Debugf ''Using %d out of %d logical processors for runtime performance'',
                 Call ''bot.Config.CountEnabledExchanges'',
                 Debugln ''EXCHANGE COVERAGE'',
                 Debugf ''Available Exchanges: %d. Enabled Exchanges: %d.'']
              @ (if ExchangePurgeCredentials (Settings b1)
                 then [Debugln ''Purging exchange API credentials.'',
                       Call ''bot.Config.PurgeExchangeAPICredentials'']
                 else [])
              @ [Debugln ''Setting up exchanges..'']))"

text \<open>Lines 203 to 206: \<^verbatim>\<open>bot.SetupExchanges\<close>, whose error ends the start.\<close>

definition start_SetupExchanges :: "world \<Rightarrow> error option step" where
  "start_SetupExchanges w b =
     (case returns_error w ''bot.SetupExchanges'' of
        Some e \<Rightarrow> (Some (Returns (Some e)), b, [Call ''bot.SetupExchanges''])
      | None \<Rightarrow> (None, b, [Call ''bot.SetupExchanges'']))"

text \<open>Lines 208 to 218: the communications manager.\<close>

definition start_CommunicationsManager :: "world \<Rightarrow> 'r step" where
  "start_CommunicationsManager w =
     setup_and_start w (\<lambda>b. EnableCommsRelayer (Settings b)) CommunicationsManager
       ''SetupCommunicationManager'' ''Communications manager unable to setup: %s''
       ''bot.CommunicationsManager.Start'' ''Communications manager unable to start: %s''"

text \<open>Lines 220 to 237: the currency storage updater and the gRPC server.\<close>

definition start_StorageUpdater :: "world \<Rightarrow> 'r step" where
  "start_StorageUpdater w b =
     (None, b,
      call_logging_error w ''currency.RunStorageUpdater''
        ''ExchangeSettings updater system failed to start %s''
      @ (if EnableGRPC (Settings b) then [Go ''StartRPCServer''] else []))"

text \<open>Lines 239 to 265: the portfolio manager and the data history manager, set up only when
  the field is still nil.\<close>

definition start_portfolioManager :: "world \<Rightarrow> 'r step" where
  "start_portfolioManager w =
     setup_and_start w
       (\<lambda>b. EnablePortfolioManager (Settings b) \<and> managers b portfolioManager = None)
       portfolioManager
       ''setupPortfolioManager'' ''portfolio manager unable to setup: %s''
       ''bot.portfolioManager.Start'' ''portfolio manager unable to start: %s''"

definition start_dataHistoryManager :: "world \<Rightarrow> 'r step" where
  "start_dataHistoryManager w =
     setup_and_start w
       (\<lambda>b. EnableDataHistoryManager (Settings b) \<and> managers b dataHistoryManager = None)
       dataHistoryManager
       ''SetupDataHistoryManager'' ''database history manager unable to setup: %s''
       ''bot.dataHistoryManager.Start'' ''database history manager unable to start: %s''"

text \<open>Lines 267 to 270: the withdraw manager, whose setup error ends the start.\<close>

definition start_WithdrawManager :: "world \<Rightarrow> error option step" where
  "start_WithdrawManager w b =
     (let b1 = b\<lparr>managers :=
                  (managers b)(WithdrawManager := returns_handle w ''SetupWithdrawManager'')\<rparr>
      in case returns_error w ''SetupWithdrawManager'' of
           Some e \<Rightarrow> (Some (Returns (Some e)), b1, [Call ''SetupWithdrawManager''])
         | None \<Rightarrow> (None, b1, [Call ''SetupWithdrawManager'']))"

text \<open>Lines 272 to 295: the API server; an error of the path lookup ends the start.\<close>

definition start_apiServer :: "world \<Rightarrow> error option step" where
  "start_apiServer w b =
     (if EnableDeprecatedRPC (Settings b) \<or> EnableWebsocketRPC (Settings b) then
        (case returns_error w ''config.GetAndMigrateDefaultPath'' of
           Some e \<Rightarrow> (Some (Returns (Some e)), b, [Call ''config.GetAndMigrateDefaultPath''])
         | None \<Rightarrow>
             let b1 = b\<lparr>managers :=
                         (managers b)(apiServer := returns_handle w ''setupAPIServerManager'')\<rparr>
             in (case returns_error w ''setupAPIServerManager'' of
                   Some e \<Rightarrow>
                     (None, b1,
                      [Call ''config.GetAndMigrateDefaultPath'', Call ''setupAPIServerManager'',
                       Errorf ''API Server unable to start: %s'' e])
                 | None \<Rightarrow>
                     (None, b1,
                      [Call ''config.GetAndMigrateDefaultPath'', Call ''setupAPIServerManager'']
                      @ (if EnableDeprecatedRPC (Settings b)
                         then call_logging_error w ''bot.apiServer.StartRESTServer''
                                ''could not start REST API server: %s''
                         else [])
                      @ (if EnableWebsocketRPC (Settings b)
                         then call_logging_error w ''bot.apiServer.StartWebsocketServer''
                                ''could not start websocket API server: %s''
                         else []))))
      else (None, b, []))"

text \<open>Lines 297 to 305: the deposit address manager, synchronised in a goroutine.\<close>

definition start_DepositAddressManager :: "world \<Rightarrow> 'r step" where
  "start_DepositAddressManager w b =
     (if EnableDepositAddressManager (Settings b) then
        (None,
         b\<lparr>managers := (managers b)
              (DepositAddressManager := returns_handle w ''SetupDepositAddressManager'')\<rparr>,
         [Call ''SetupDepositAddressManager'', Go ''bot.DepositAddressManager.Sync''])
      else (None, b, []))"

text \<open>Lines 307 to 321: the order manager.\<close>

definition start_OrderManager :: "world \<Rightarrow> 'r step" where
  "start_OrderManager w =
     setup_and_start w (\<lambda>b. EnableOrderManager (Settings b)) OrderManager
       ''SetupOrderManager'' ''Order manager unable to setup: %s''
       ''bot.OrderManager.Start'' ''Order manager unable to start: %s''"

text \<open>Lines 323 to 352: the exchange sync manager, started in a goroutine.\<close>

definition start_currencyPairSyncer :: "world \<Rightarrow> 'r step" where
  "start_currencyPairSyncer w b =
     (if EnableExchangeSyncManager (Settings b) then
        let b1 = b\<lparr>managers :=
                    (managers b)(currencyPairSyncer := returns_handle w ''setupSyncManager'')\<rparr>
        in (case returns_error w ''setupSyncManager'' of
              Some e \<Rightarrow>
                (None, b1,
                 [Call ''setupSyncManager'',
                  Errorf ''Unable to initialise exchange currency pair syncer. Err: %s'' e])
            | None \<Rightarrow>
                (None, b1, [Call ''setupSyncManager'', Go ''bot.currencyPairSyncer.Start'']))
      else (None, b, []))"

text \<open>Lines 354 to 376: the event manager and the websocket routine manager.\<close>

definition start_eventManager :: "world \<Rightarrow> 'r step" where
  "start_eventManager w =
     setup_and_start w (\<lambda>b. EnableEventManager (Settings b)) eventManager
       ''setupEventManager'' ''Unable to initialise event manager. Err: %s''
       ''bot.eventManager.Start'' ''failed to start event manager. Err: %s''"

definition start_websocketRoutineManager :: "world \<Rightarrow> 'r step" where
  "start_websocketRoutineManager w =
     setup_and_start w (\<lambda>b. EnableWebsocketRoutine (Settings b)) websocketRoutineManager
       ''setupWebsocketRoutineManager''
       ''Unable to initialise websocket routine manager. Err: %s''
       ''bot.websocketRoutineManager.Start''
       ''failed to start websocket routine manager. Err: %s''"

text \<open>
  Lines 378 to 386: the script manager. Its \<^verbatim>\<open>Start\<close> is called whether or not
  \<^verbatim>\<open>gctscript.NewManager\<close> returned an error.
\<close>

definition start_gctScriptManager :: "world \<Rightarrow> 'r step" where
  "start_gctScriptManager w b =
     (if EnableGCTScriptManager (Settings b) then
        (None,
         b\<lparr>managers := (managers b)(gctScriptManager := returns_handle w ''gctscript.NewManager'')\<rparr>,
         call_logging_error w ''gctscript.NewManager'' ''failed to create script manager. Err: %s''
         @ call_logging_error w ''bot.gctScriptManager.Start''
             ''GCTScript manager unable to start: %s'')
      else (None, b, []))"

text \<open>Lines 388 to 406: the currency state manager.\<close>

definition start_currencyStateManager :: "world \<Rightarrow> 'r step" where
  "start_currencyStateManager w =
     setup_and_start w (\<lambda>b. EnableCurrencyStateManager (Settings b)) currencyStateManager
       ''SetupCurrencyStateManager'' ''%s unable to setup: %s''
       ''bot.currencyStateManager.Start'' ''%s unable to start: %s''"

text \<open>The statements of \<^verbatim>\<open>Engine.Start\<close> that follow the database manager, in order.\<close>

definition Start_after_DatabaseManager :: "world \<Rightarrow> error option step list" where
  "Start_after_DatabaseManager w =
     [start_Dispatcher w, start_connectionManager w, start_NTPClient w, start_report w,
      start_SetupExchanges w, start_CommunicationsManager w, start_StorageUpdater w,
      start_portfolioManager w, start_dataHistoryManager w, start_WithdrawManager w,
      start_apiServer w, start_DepositAddressManager w, start_OrderManager w,
      start_currencyPairSyncer w, start_eventManager w, start_websocketRoutineManager w,
      start_gctScriptManager w, start_currencyStateManager w]"

text \<open>
  \<^verbatim>\<open>func (bot *Engine) Start() error\<close>: the nil check comes before the mutex is taken; the
  last statement returns nil.
\<close>

definition Engine_Start ::
  "world \<Rightarrow> Engine option \<Rightarrow> error option outcome \<times> Engine option \<times> event list" where
  "Engine_Start w receiver =
     (case receiver of
        None \<Rightarrow> (Returns (Some (errors_New ''engine instance is nil'')), None, [])
      | Some b \<Rightarrow> locked None (run (start_DatabaseManager w # Start_after_DatabaseManager w) b))"

subsection \<open>Engine.Stop\<close>

text \<open>
  Modelled from the spec: \<^verbatim>\<open>IsRunning\<close> (for the API server \<^verbatim>\<open>IsRESTServerRunning\<close> and
  \<^verbatim>\<open>IsWebsocketServerRunning\<close>) of the managers whose code is outside the source files. The
  spec (4.1) has it "return false (never panic or block indefinitely) for a nil/unconfigured
  receiver"; on a non-nil receiver the answer is the world's.
\<close>

definition manager_IsRunning :: "world \<Rightarrow> string \<Rightarrow> handle option \<Rightarrow> bool" where
  "manager_IsRunning w name h = (case h of None \<Rightarrow> False | Some x \<Rightarrow> returns_bool w name)"

text \<open>
  Modelled from the spec: \<^verbatim>\<open>GetAddresses\<close> and \<^verbatim>\<open>GetPortfolio\<close> of the portfolio manager,
  whose code is outside the source files. A nil manager "must behave identically to one in
  Unconfigured state for every query" and "must never cause a fault" (spec 3), and in that
  state "no backing resources exist": it reports no addresses and no portfolio. On a non-nil
  manager both are the world's; \<^verbatim>\<open>GetPortfolio\<close> returns a pointer, which may be nil.
\<close>

definition portfolioManager_GetAddresses :: "world \<Rightarrow> handle option \<Rightarrow> string list" where
  "portfolioManager_GetAddresses w h = (case h of None \<Rightarrow> [] | Some x \<Rightarrow> addresses_of w x)"

definition portfolioManager_GetPortfolio :: "world \<Rightarrow> handle option \<Rightarrow> portfolio_Base option" where
  "portfolioManager_GetPortfolio w h = (case h of None \<Rightarrow> None | Some x \<Rightarrow> portfolio_of w x)"

text \<open>
  Lines 415 to 419: the first log line and the snapshot of the portfolio into the
  configuration. \<^verbatim>\<open>*bot.portfolioManager.GetPortfolio()\<close> panics on a nil pointer.
\<close>

definition stop_snapshot :: "world \<Rightarrow> 'r step" where
  "stop_snapshot w b =
     (if length (portfolioManager_GetAddresses w (managers b portfolioManager)) \<noteq> 0 then
        (case portfolioManager_GetPortfolio w (managers b portfolioManager) of
           None \<Rightarrow>
             (Some Panics, b,
              [Debugln ''Engine shutting down..'', Call ''bot.portfolioManager.GetAddresses'',
               Call ''bot.portfolioManager.GetPortfolio''])
         | Some p \<Rightarrow>
             (None, b\<lparr>Config := (Config b)\<lparr>Portfolio := p\<rparr>\<rparr>,
              [Debugln ''Engine shutting down..'', Call ''bot.portfolioManager.GetAddresses'',
               Call ''bot.portfolioManager.GetPortfolio'']))
      else (None, b,
            [Debugln ''Engine shutting down..'', Call ''bot.portfolioManager.GetAddresses'']))"

text \<open>
  The pattern of a manager in \<^verbatim>\<open>Engine.Stop\<close>:
  \<^verbatim>\<open>if bot.X.IsRunning() { if err := bot.X.Stop(); err != nil { Errorf(msg, err) } }\<close>.
\<close>

definition stop_if_running :: "world \<Rightarrow> manager \<Rightarrow> string \<Rightarrow> string \<Rightarrow> string \<Rightarrow> 'r step" where
  "stop_if_running w mgr query_name stop_name msg b =
     (if manager_IsRunning w query_name (managers b mgr)
      then (None, b, Call query_name # call_logging_error w stop_name msg)
      else (None, b, [Call query_name]))"

text \<open>Lines 451 to 455: the connection manager, through its own \<open>IsRunning\<close> and \<open>Stop\<close>.\<close>

definition stop_connectionManager :: "'r step" where
  "stop_connectionManager b =
     (if connectionManager_IsRunning (connectionManager b) then
        (case connectionManager_Stop (connectionManager b) of
           (r, m', t) \<Rightarrow>
             let b1 = b\<lparr>connectionManager := m'\<rparr>;
                 ev = Call ''bot.connectionManager.IsRunning''
                      # Call ''bot.connectionManager.Stop'' # t
             in (case r of
                   Returns None \<Rightarrow> (None, b1, ev)
                 | Returns (Some e) \<Rightarrow>
                     (None, b1, ev @ [Errorf ''Connection manager unable to stop. Error: %v'' e])
                 | Panics \<Rightarrow> (Some Panics, b1, ev)
                 | Blocks \<Rightarrow> (Some Blocks, b1, ev)))
      else (None, b, [Call ''bot.connectionManager.IsRunning'']))"

text \<open>Lines 476 to 480: the dispatcher, a package and not a field of the engine.\<close>

definition stop_dispatch :: "world \<Rightarrow> 'r step" where
  "stop_dispatch w b =
     (if returns_bool w ''dispatch.IsRunning''
      then (None, b,
            Call ''dispatch.IsRunning''
            # call_logging_error w ''dispatch.Stop'' ''Dispatch system unable to stop. Error: %v'')
      else (None, b, [Call ''dispatch.IsRunning'']))"

text \<open>Lines 421 to 492: the subsystems, in the order of the source.\<close>

definition Stop_subsystems :: "world \<Rightarrow> 'r step list" where
  "Stop_subsystems w =
     [stop_if_running w gctScriptManager ''bot.gctScriptManager.IsRunning''
        ''bot.gctScriptManager.Stop'' ''GCTScript manager unable to stop. Error: %v'',
      stop_if_running w OrderManager ''bot.OrderManager.IsRunning''
        ''bot.OrderManager.Stop'' ''Order manager unable to stop. Error: %v'',
      stop_if_running w eventManager ''bot.eventManager.IsRunning''
        ''bot.eventManager.Stop'' ''event manager unable to stop. Error: %v'',
      stop_if_running w ntpManager ''bot.ntpManager.IsRunning''
        ''bot.ntpManager.Stop'' ''NTP manager unable to stop. Error: %v'',
      stop_if_running w CommunicationsManager ''bot.CommunicationsManager.IsRunning''
        ''bot.CommunicationsManager.Stop'' ''Communication manager unable to stop. Error: %v'',
      stop_if_running w portfolioManager ''bot.portfolioManager.IsRunning''
        ''bot.portfolioManager.Stop'' ''Fund manager unable to stop. Error: %v'',
      stop_connectionManager,
      stop_if_running w apiServer ''bot.apiServer.IsRESTServerRunning''
        ''bot.apiServer.StopRESTServer'' ''API Server unable to stop REST server. Error: %s'',
      stop_if_running w apiServer ''bot.apiServer.IsWebsocketServerRunning''
        ''bot.apiServer.StopWebsocketServer''
        ''API Server unable to stop websocket server. Error: %s'',
      stop_if_running w dataHistoryManager ''bot.dataHistoryManager.IsRunning''
        ''bot.dataHistoryManager.Stop'' ''data history manager unable to stop. Error: %v'',
      stop_if_running w DatabaseManager ''bot.DatabaseManager.IsRunning''
        ''bot.DatabaseManager.Stop'' ''Database manager unable to stop. Error: %v'',
      stop_dispatch w,
      stop_if_running w websocketRoutineManager ''bot.websocketRoutineManager.IsRunning''
        ''bot.websocketRoutineManager.Stop''
        ''websocket routine manager unable to stop. Error: %v'',
      stop_if_running w currencyStateManager ''bot.currencyStateManager.IsRunning''
        ''bot.currencyStateManager.Stop''
        ''currency state manager unable to stop. Error: %v'']"

text \<open>Lines 494 to 496: the currency storage updater.\<close>

definition stop_StorageUpdater :: "world \<Rightarrow> 'r step" where
  "stop_StorageUpdater w b =
     (None, b,
      call_logging_error w ''currency.ShutdownStorageUpdater''
        ''ExchangeSettings storage system. Error: %v'')"

text \<open>Lines 498 to 505: the configuration is saved unless this is a dry run.\<close>

definition stop_SaveConfig :: "world \<Rightarrow> 'r step" where
  "stop_SaveConfig w b =
     (if \<not> EnableDryRun (Settings b) then
        (case returns_error w ''bot.Config.SaveConfigToFile'' of
           Some e \<Rightarrow>
             (None, b, [Call ''bot.Config.SaveConfigToFile'', Errorln ''Unable to save config.''])
         | None \<Rightarrow>
             (None, b,
              [Call ''bot.Config.SaveConfigToFile'',
               Debugln ''Config file saved successfully.'']))
      else (None, b, []))"

text \<open>Line 508: \<^verbatim>\<open>bot.ServicesWG.Wait()\<close> returns only when the counter reaches zero.\<close>

definition stop_Wait :: "world \<Rightarrow> 'r step" where
  "stop_Wait w b =
     (if ServicesWG_drains w then (None, b, [ServicesWG_Wait])
      else (Some Blocks, b, [ServicesWG_Wait]))"

text \<open>
  Lines 509 to 511: the logger is closed; a failure is printed with the standard library's
  \<^verbatim>\<open>log.Printf\<close>.
\<close>

definition stop_CloseLogger :: "world \<Rightarrow> 'r step" where
  "stop_CloseLogger w b =
     (None, b,
      Call ''gctlog.CloseLogger''
      # (case returns_error w ''gctlog.CloseLogger'' of
           None \<Rightarrow> []
         | Some e \<Rightarrow> [log_Printf ''Failed to close logger. Error: %v'' e]))"

text \<open>
  \<^verbatim>\<open>func (bot *Engine) Stop()\<close>. There is no nil check: on a nil receiver the read of
  \<^verbatim>\<open>bot.portfolioManager\<close> panics.
\<close>

definition Engine_Stop ::
  "world \<Rightarrow> Engine option \<Rightarrow> unit outcome \<times> Engine option \<times> event list" where
  "Engine_Stop w receiver =
     (case receiver of
        None \<Rightarrow> (Panics, None, [Lock, Debugln ''Engine shutting down..'', Unlock])
      | Some b \<Rightarrow>
          locked ()
            (run (stop_snapshot w # Stop_subsystems w
                  @ [stop_StorageUpdater w, stop_SaveConfig w, stop_Wait w, stop_CloseLogger w])
               b))"

section \<open>Vocabulary of the properties\<close>

text \<open>
  One entry for each subsystem that \<^verbatim>\<open>Engine.Stop\<close> handles: the call that asks whether it
  runs, the call that stops it, the format string of the log line for a failed stop, and, on
  the engine and world at hand, what the query answers, the events inside the stop call and
  the error the stop call returns.
\<close>

record subsystem_stop =
  query_call :: string
  stop_call :: string
  log_message :: string
  is_running :: bool
  stop_events :: "event list"
  stop_error :: "error option"

text \<open>The entry of a manager held in a field of the engine.\<close>

definition managed :: "world \<Rightarrow> Engine \<Rightarrow> manager \<Rightarrow> string \<Rightarrow> string \<Rightarrow> string \<Rightarrow> subsystem_stop" where
  "managed w b mgr q s msg =
     \<lparr>query_call = q, stop_call = s, log_message = msg,
      is_running = manager_IsRunning w q (managers b mgr),
      stop_events = [], stop_error = returns_error w s\<rparr>"

text \<open>The subsystems of lines 421 to 492, in that order.\<close>

definition Stop_table :: "world \<Rightarrow> Engine \<Rightarrow> subsystem_stop list" where
  "Stop_table w b =
     [managed w b gctScriptManager ''bot.gctScriptManager.IsRunning''
        ''bot.gctScriptManager.Stop'' ''GCTScript manager unable to stop. Error: %v'',
      managed w b OrderManager ''bot.OrderManager.IsRunning''
        ''bot.OrderManager.Stop'' ''Order manager unable to stop. Error: %v'',
      managed w b eventManager ''bot.eventManager.IsRunning''
        ''bot.eventManager.Stop'' ''event manager unable to stop. Error: %v'',
      managed w b ntpManager ''bot.ntpManager.IsRunning''
        ''bot.ntpManager.Stop'' ''NTP manager unable to stop. Error: %v'',
      managed w b CommunicationsManager ''bot.CommunicationsManager.IsRunning''
        ''bot.CommunicationsManager.Stop'' ''Communication manager unable to stop. Error: %v'',
      managed w b portfolioManager ''bot.portfolioManager.IsRunning''
        ''bot.portfolioManager.Stop'' ''Fund manager unable to stop. Error: %v'',
      \<lparr>query_call = ''bot.connectionManager.IsRunning'',
       stop_call = ''bot.connectionManager.Stop'',
       log_message = ''Connection manager unable to stop. Error: %v'',
       is_running = connectionManager_IsRunning (connectionManager b),
       stop_events = snd (snd (connectionManager_Stop (connectionManager b))),
       stop_error = (case fst (connectionManager_Stop (connectionManager b)) of
                       Returns e \<Rightarrow> e | _ \<Rightarrow> None)\<rparr>,
      managed w b apiServer ''bot.apiServer.IsRESTServerRunning''
        ''bot.apiServer.StopRESTServer'' ''API Server unable to stop REST server. Error: %s'',
      managed w b apiServer ''bot.apiServer.IsWebsocketServerRunning''
        ''bot.apiServer.StopWebsocketServer''
        ''API Server unable to stop websocket server. Error: %s'',
      managed w b dataHistoryManager ''bot.dataHistoryManager.IsRunning''
        ''bot.dataHistoryManager.Stop'' ''data history manager unable to stop. Error: %v'',
      managed w b DatabaseManager ''bot.DatabaseManager.IsRunning''
        ''bot.DatabaseManager.Stop'' ''Database manager unable to stop. Error: %v'',
      \<lparr>query_call = ''dispatch.IsRunning'', stop_call = ''dispatch.Stop'',
       log_message = ''Dispatch system unable to stop. Error: %v'',
       is_running = returns_bool w ''dispatch.IsRunning'',
       stop_events = [], stop_error = returns_error w ''dispatch.Stop''\<rparr>,
      managed w b websocketRoutineManager ''bot.websocketRoutineManager.IsRunning''
        ''bot.websocketRoutineManager.Stop''
        ''websocket routine manager unable to stop. Error: %v'',
      managed w b currencyStateManager ''bot.currencyStateManager.IsRunning''
        ''bot.currencyStateManager.Stop''
        ''currency state manager unable to stop. Error: %v'']"

text \<open>
  The events of one subsystem: the query; if it answered true the stop call with its own
  events; and the error log if the stop call returned an error.
\<close>

definition block_events :: "subsystem_stop \<Rightarrow> event list" where
  "block_events x =
     Call (query_call x)
     # (if is_running x
        then Call (stop_call x) # stop_events x
             @ (case stop_error x of None \<Rightarrow> [] | Some e \<Rightarrow> [Errorf (log_message x) e])
        else [])"

text \<open>The engine after the connection manager's block of \<^verbatim>\<open>Engine.Stop\<close>.\<close>

definition after_Stop :: "Engine \<Rightarrow> Engine" where
  "after_Stop b =
     (if connectionManager_IsRunning (connectionManager b)
      then b\<lparr>connectionManager := fst (snd (connectionManager_Stop (connectionManager b)))\<rparr>
      else b)"

text \<open>\<open>y\<close> is the element right after an occurrence of \<open>x\<close>.\<close>

fun directly_follows :: "'a \<Rightarrow> 'a \<Rightarrow> 'a list \<Rightarrow> bool" where
  "directly_follows x y (a # c # rest) = ((a = x \<and> c = y) \<or> directly_follows x y (c # rest))"
| "directly_follows x y rest = False"

text \<open>
  The portfolio snapshot at the start of \<^verbatim>\<open>Engine.Stop\<close> does not dereference a nil pointer:
  the portfolio manager reports no addresses (as a nil manager does), or it has a portfolio
  to hand over.
\<close>

definition snapshot_available :: "world \<Rightarrow> Engine \<Rightarrow> bool" where
  "snapshot_available w b =
     (portfolioManager_GetAddresses w (managers b portfolioManager) = []
      \<or> portfolioManager_GetPortfolio w (managers b portfolioManager) \<noteq> None)"

text \<open>The collaborator calls of \<^verbatim>\<open>Engine.Stop\<close> that are not a subsystem's query or stop.\<close>

definition other_calls :: "string list" where
  "other_calls =
     [''bot.portfolioManager.GetAddresses'', ''bot.portfolioManager.GetPortfolio'',
      ''currency.ShutdownStorageUpdater'', ''bot.Config.SaveConfigToFile'',
      ''gctlog.CloseLogger'']"

text \<open>
  The engine after the snapshot; the events of \<^verbatim>\<open>Engine.Stop\<close> up to and including the
  currency storage updater; the events of saving the configuration; the report of a failure
  to close the logger.
\<close>

definition after_snapshot :: "world \<Rightarrow> Engine \<Rightarrow> Engine" where
  "after_snapshot w b =
     (if portfolioManager_GetAddresses w (managers b portfolioManager) = [] then b
      else (case portfolioManager_GetPortfolio w (managers b portfolioManager) of
              None \<Rightarrow> b
            | Some p \<Rightarrow> b\<lparr>Config := (Config b)\<lparr>Portfolio := p\<rparr>\<rparr>))"

definition before_save :: "world \<Rightarrow> Engine \<Rightarrow> event list" where
  "before_save w b =
     [Debugln ''Engine shutting down..'', Call ''bot.portfolioManager.GetAddresses'']
     @ (if portfolioManager_GetAddresses w (managers b portfolioManager) = [] then []
        else [Call ''bot.portfolioManager.GetPortfolio''])
     @ concat (map block_events (Stop_table w b))
     @ call_logging_error w ''currency.ShutdownStorageUpdater''
         ''ExchangeSettings storage system. Error: %v''"

definition save_events :: "world \<Rightarrow> Engine \<Rightarrow> event list" where
  "save_events w b =
     (if EnableDryRun (Settings b) then []
      else [Call ''bot.Config.SaveConfigToFile'',
            (case returns_error w ''bot.Config.SaveConfigToFile'' of
               None \<Rightarrow> Debugln ''Config file saved successfully.''
             | Some e \<Rightarrow> Errorln ''Unable to save config.'')])"

definition close_report :: "world \<Rightarrow> event list" where
  "close_report w =
     (case returns_error w ''gctlog.CloseLogger'' of
        None \<Rightarrow> []
      | Some e \<Rightarrow> [log_Printf ''Failed to close logger. Error: %v'' e])"

subsection \<open>Example inputs\<close>

text \<open>
  Settings with every switch off; a configuration; an engine as \<^verbatim>\<open>NewFromSettings\<close> leaves
  it, with no subsystem set up; a world in which one named call returns an error and every
  other call succeeds (constructors return nil handles, queries answer true).
\<close>

definition quiet_Settings :: Settings where
  "quiet_Settings =
     \<lparr>EnableDatabaseManager = False, EnableDispatcher = False,
      EnableConnectivityMonitor = False, EnableNTPClient = False,
      ExchangePurgeCredentials = False, EnableCommsRelayer = False, EnableGRPC = False,
      EnablePortfolioManager = False, EnableDataHistoryManager = False,
      EnableDeprecatedRPC = False, EnableWebsocketRPC = False,
      EnableDepositAddressManager = False, EnableOrderManager = False,
      EnableExchangeSyncManager = False, EnableEventManager = False,
      EnableWebsocketRoutine = False, EnableGCTScriptManager = False,
      EnableCurrencyStateManager = False, EnableDryRun = False\<rparr>"

definition plain_Config :: Config where
  "plain_Config =
     \<lparr>ConnectionMonitor = \<lparr>DNSList = None, PublicDomainList = None, CheckInterval = 0\<rparr>,
      NTPClient_Level = 1, Logging_Enabled = Some False, Logging_Output = ''console'',
      Portfolio = []\<rparr>"

definition fresh_Engine :: "Settings \<Rightarrow> Engine" where
  "fresh_Engine s =
     \<lparr>Config = plain_Config, connectionManager = None, managers = (\<lambda>m. None), Settings = s,
      uptime = 0\<rparr>"

definition failing_world :: "string \<Rightarrow> error \<Rightarrow> world" where
  "failing_world name e =
     \<lparr>returns_handle = (\<lambda>n. None),
      returns_error = (\<lambda>n. if n = name then Some e else None),
      returns_bool = (\<lambda>n. True),
      connchecker_values = \<lparr>DefaultDNSList = Some [''8.8.8.8''],
         DefaultDomainList = Some [''www.google.com''], DefaultCheckInterval = 1000000000\<rparr>,
      connchecker_New = (\<lambda>d p i. (Some 1, None)),
      SetNTPCheck = (\<lambda>c. ((''ok'', None), c)),
      addresses_of = (\<lambda>h. []),
      portfolio_of = (\<lambda>h. None),
      time_Now = 42,
      ServicesWG_drains = True\<rparr>"

text \<open>An engine in which two managers are set up and all other subsystem fields are nil.\<close>

definition two_running :: Engine where
  "two_running =
     (fresh_Engine quiet_Settings)
       \<lparr>managers := (\<lambda>m. None)(gctScriptManager := Some 1, currencyStateManager := Some 2)\<rparr>"

text \<open>The number of calls of \<^verbatim>\<open>connchecker.New\<close> among the events.\<close>

definition New_calls :: "event list \<Rightarrow> nat" where
  "New_calls t =
     length (filter (\<lambda>e. case e of connchecker_New_call d p i \<Rightarrow> True | _ \<Rightarrow> False) t)"

section \<open>Properties of the connection manager\<close>

text \<open>
  Claim C2. A manager in the stopped state whose checker construction succeeds (so its \<open>cfg\<close>
  is not nil and \<^verbatim>\<open>connchecker.New\<close> returns no error): the first \<open>Start\<close> returns nil with the
  flag swapped from 0 to 1 and \<open>conn\<close> set to the new checker; a second \<open>Start\<close>, whatever
  \<^verbatim>\<open>New\<close> would do then, returns an error wrapping \<open>ErrSubSystemAlreadyStarted\<close>, leaves the
  manager as it is (\<open>conn\<close> included), produces no event, and over both calls \<^verbatim>\<open>New\<close> was
  called once.
\<close>

theorem Start_twice:
  assumes "started m = 0" and "cfg m = Some c"
    and "new1 (DNSList c) (PublicDomainList c) (CheckInterval c) = (ck, None)"
  shows "case connectionManager_Start new1 (Some m) of
           (r1, m1, t1) \<Rightarrow>
             r1 = Returns None
             \<and> m1 = Some (m\<lparr>started := 1, conn := ck\<rparr>)
             \<and> connectionManager_IsRunning m1
             \<and> (case connectionManager_Start new2 m1 of
                  (r2, m2, t2) \<Rightarrow>
                    (\<exists>e. r2 = Returns (Some e) \<and> errors_Is e ErrSubSystemAlreadyStarted)
                    \<and> m2 = m1 \<and> t2 = []
                    \<and> New_calls (t1 @ t2) = 1)"
  using assms
  by (simp add: connectionManager_Start_def connectionManager_IsRunning_def LoadInt32_def
      CompareAndSwapInt32_def New_calls_def)

theorem Start_twice_witness:
  "started \<lparr>started = 0, conn = None,
      cfg = Some \<lparr>DNSList = None, PublicDomainList = None, CheckInterval = 5\<rparr>\<rparr> = 0
   \<and> (\<lambda>d p i. (Some (1::nat), None :: error option)) None None (5 :: 64 word) = (Some 1, None)
   \<and> (case connectionManager_Start (\<lambda>d p i. (Some 1, None))
            (Some \<lparr>started = 0, conn = None,
               cfg = Some \<lparr>DNSList = None, PublicDomainList = None, CheckInterval = 5\<rparr>\<rparr>) of
         (r1, m1, t1) \<Rightarrow>
           r1 = Returns None
           \<and> m1 = Some \<lparr>started = 1, conn = Some 1,
                  cfg = Some \<lparr>DNSList = None, PublicDomainList = None, CheckInterval = 5\<rparr>\<rparr>
           \<and> connectionManager_IsRunning m1
           \<and> (case connectionManager_Start (\<lambda>d p i. (Some 2, None)) m1 of
                (r2, m2, t2) \<Rightarrow>
                  (\<exists>e. r2 = Returns (Some e) \<and> errors_Is e ErrSubSystemAlreadyStarted)
                  \<and> m2 = m1 \<and> t2 = []
                  \<and> New_calls (t1 @ t2) = 1))"
  using Start_twice [of "\<lparr>started = 0, conn = None,
      cfg = Some \<lparr>DNSList = None, PublicDomainList = None, CheckInterval = 5\<rparr>\<rparr>"
      "\<lparr>DNSList = None, PublicDomainList = None, CheckInterval = 5\<rparr>"
      "\<lambda>d p i. (Some 1, None)" "Some 1" "\<lambda>d p i. (Some 2, None)"]
  by simp

text \<open>
  Claim C3. A manager in the stopped state whose \<^verbatim>\<open>connchecker.New\<close> fails inside \<open>Start\<close>:
  \<open>Start\<close> returns that error with the flag back at 0, so \<open>IsRunning\<close> is false, and a
  following \<open>Start\<close> is not turned away at the flag: it calls \<^verbatim>\<open>New\<close> again and returns what
  that call gives (nil when it succeeds).
\<close>

theorem Start_rolls_back:
  assumes "started m = 0" and "cfg m = Some c"
    and "new1 (DNSList c) (PublicDomainList c) (CheckInterval c) = (ck, Some e)"
  shows "case connectionManager_Start new1 (Some m) of
           (r1, m1, t1) \<Rightarrow>
             r1 = Returns (Some e)
             \<and> m1 = Some (m\<lparr>started := 0, conn := ck\<rparr>)
             \<and> connectionManager_IsRunning m1 = False
             \<and> (case connectionManager_Start new2 m1 of
                  (r2, m2, t2) \<Rightarrow>
                    r2 = Returns (snd (new2 (DNSList c) (PublicDomainList c) (CheckInterval c)))
                    \<and> New_calls t2 = 1)"
  using assms
  by (cases "new2 (DNSList c) (PublicDomainList c) (CheckInterval c)")
     (auto simp add: connectionManager_Start_def connectionManager_IsRunning_def LoadInt32_def
      CompareAndSwapInt32_def New_calls_def Let_def split: option.splits)

theorem Start_rolls_back_witness:
  "started \<lparr>started = 0, conn = None,
      cfg = Some \<lparr>DNSList = None, PublicDomainList = None, CheckInterval = 5\<rparr>\<rparr> = 0
   \<and> (case connectionManager_Start (\<lambda>d p i. (None, Some (errors_New ''no dns'')))
            (Some \<lparr>started = 0, conn = None,
               cfg = Some \<lparr>DNSList = None, PublicDomainList = None, CheckInterval = 5\<rparr>\<rparr>) of
         (r1, m1, t1) \<Rightarrow>
           r1 = Returns (Some (errors_New ''no dns''))
           \<and> m1 = Some \<lparr>started = 0, conn = None,
                  cfg = Some \<lparr>DNSList = None, PublicDomainList = None, CheckInterval = 5\<rparr>\<rparr>
           \<and> connectionManager_IsRunning m1 = False
           \<and> (case connectionManager_Start (\<lambda>d p i. (Some 2, None)) m1 of
                (r2, m2, t2) \<Rightarrow> r2 = Returns None \<and> New_calls t2 = 1))"
  using Start_rolls_back [of "\<lparr>started = 0, conn = None,
      cfg = Some \<lparr>DNSList = None, PublicDomainList = None, CheckInterval = 5\<rparr>\<rparr>"
      "\<lparr>DNSList = None, PublicDomainList = None, CheckInterval = 5\<rparr>"
      "\<lambda>d p i. (None, Some (errors_New ''no dns''))" None "errors_New ''no dns''"
      "\<lambda>d p i. (Some 2, None)"]
  by simp

text \<open>
  Claim C4. On a nil receiver \<open>Start\<close> and \<open>Stop\<close> return an error wrapping
  \<open>ErrNilSubsystem\<close>, \<open>IsRunning\<close> returns false; none of them panics, none produces an event,
  and the receiver stays nil.
\<close>

theorem nil_connectionManager_is_safe:
  "(case connectionManager_Start new None of
      (r, m', t) \<Rightarrow>
        (\<exists>e. r = Returns (Some e) \<and> errors_Is e ErrNilSubsystem) \<and> m' = None \<and> t = [])
   \<and> (case connectionManager_Stop None of
      (r, m', t) \<Rightarrow>
        (\<exists>e. r = Returns (Some e) \<and> errors_Is e ErrNilSubsystem) \<and> m' = None \<and> t = [])
   \<and> connectionManager_IsRunning None = False"
  by (simp add: connectionManager_Start_def connectionManager_Stop_def
      connectionManager_IsRunning_def)

theorem nil_connectionManager_is_safe_witness:
  "(case connectionManager_Start (\<lambda>d p i. (Some 7, None)) None of
      (r, m', t) \<Rightarrow>
        (\<exists>e. r = Returns (Some e) \<and> errors_Is e ErrNilSubsystem) \<and> m' = None \<and> t = [])
   \<and> (case connectionManager_Stop None of
      (r, m', t) \<Rightarrow>
        (\<exists>e. r = Returns (Some e) \<and> errors_Is e ErrNilSubsystem) \<and> m' = None \<and> t = [])
   \<and> connectionManager_IsRunning None = False"
  using nil_connectionManager_is_safe [of "\<lambda>d p i. (Some 7, None)"] by simp

text \<open>
  Claim C7. A manager made by \<open>setupConnectionManager\<close> from a non-nil configuration, with
  \<^verbatim>\<open>connchecker.New\<close> returning no error at either call: \<open>Start\<close>, \<open>Stop\<close>, \<open>Start\<close> returns nil
  from both starts, and the manager is running, then not running, then running again.
\<close>

theorem Start_Stop_Start:
  assumes "setupConnectionManager pkg (Some c) = ((m0, err0), Some k)"
    and "snd (new1 (DNSList k) (PublicDomainList k) (CheckInterval k)) = None"
    and "snd (new2 (DNSList k) (PublicDomainList k) (CheckInterval k)) = None"
  shows "case connectionManager_Start new1 m0 of
           (r1, m1, t1) \<Rightarrow>
             (case connectionManager_Stop m1 of
                (r2, m2, t2) \<Rightarrow>
                  (case connectionManager_Start new2 m2 of
                     (r3, m3, t3) \<Rightarrow>
                       r1 = Returns None \<and> connectionManager_IsRunning m1
                       \<and> connectionManager_IsRunning m2 = False
                       \<and> r3 = Returns None \<and> connectionManager_IsRunning m3))"
  using assms
  apply (cases "new1 (DNSList k) (PublicDomainList k) (CheckInterval k)")
  apply (cases "new2 (DNSList k) (PublicDomainList k) (CheckInterval k)")
  apply (auto simp add: setupConnectionManager_def connectionManager_Start_def
      connectionManager_Stop_def connectionManager_IsRunning_def LoadInt32_def
      CompareAndSwapInt32_def Let_def split: option.splits)
  done

theorem Start_Stop_Start_witness:
  "setupConnectionManager
      \<lparr>DefaultDNSList = Some [''8.8.8.8''], DefaultDomainList = Some [''www.google.com''],
       DefaultCheckInterval = 1000000000\<rparr>
      (Some \<lparr>DNSList = None, PublicDomainList = None, CheckInterval = 0\<rparr>) =
     ((Some \<lparr>started = 0, conn = None,
         cfg = Some \<lparr>DNSList = Some [''8.8.8.8''], PublicDomainList = Some [''www.google.com''],
                  CheckInterval = 1000000000\<rparr>\<rparr>, None),
      Some \<lparr>DNSList = Some [''8.8.8.8''], PublicDomainList = Some [''www.google.com''],
            CheckInterval = 1000000000\<rparr>)
   \<and> (case connectionManager_Start (\<lambda>d p i. (Some 1, None))
            (Some \<lparr>started = 0, conn = None,
               cfg = Some \<lparr>DNSList = Some [''8.8.8.8''],
                        PublicDomainList = Some [''www.google.com''],
                        CheckInterval = 1000000000\<rparr>\<rparr>) of
         (r1, m1, t1) \<Rightarrow>
           (case connectionManager_Stop m1 of
              (r2, m2, t2) \<Rightarrow>
                (case connectionManager_Start (\<lambda>d p i. (Some 2, None)) m2 of
                   (r3, m3, t3) \<Rightarrow>
                     r1 = Returns None \<and> connectionManager_IsRunning m1
                     \<and> connectionManager_IsRunning m2 = False
                     \<and> r3 = Returns None \<and> connectionManager_IsRunning m3)))"
proof -
  have h: "setupConnectionManager
      \<lparr>DefaultDNSList = Some [''8.8.8.8''], DefaultDomainList = Some [''www.google.com''],
       DefaultCheckInterval = 1000000000\<rparr>
      (Some \<lparr>DNSList = None, PublicDomainList = None, CheckInterval = 0\<rparr>) =
     ((Some \<lparr>started = 0, conn = None,
         cfg = Some \<lparr>DNSList = Some [''8.8.8.8''], PublicDomainList = Some [''www.google.com''],
                  CheckInterval = 1000000000\<rparr>\<rparr>, None),
      Some \<lparr>DNSList = Some [''8.8.8.8''], PublicDomainList = Some [''www.google.com''],
            CheckInterval = 1000000000\<rparr>)"
    by (simp add: setupConnectionManager_def Let_def)
  show ?thesis
    by (rule conjI [OF h], rule Start_Stop_Start [OF h]) simp_all
qed

text \<open>
  Claim C8. \<open>setupConnectionManager\<close> on a nil configuration returns a nil manager and
  \<open>errNilConfig\<close>. On a non-nil configuration it returns no error and a manager whose
  configuration has the package default in each field that was unset (nil \<open>DNSList\<close>, nil
  \<open>PublicDomainList\<close>, zero \<open>CheckInterval\<close>) and the given value in the others; the manager
  is not running, its flag is 0 and it holds no checker: nothing was constructed or started.
\<close>

theorem setupConnectionManager_result:
  "setupConnectionManager pkg None = ((None, Some errNilConfig), None)
   \<and> (case setupConnectionManager pkg (Some c) of
        ((m, err), c') \<Rightarrow>
          err = None
          \<and> c' = Some \<lparr>DNSList = (if DNSList c = None then DefaultDNSList pkg else DNSList c),
                       PublicDomainList = (if PublicDomainList c = None then DefaultDomainList pkg
                                           else PublicDomainList c),
                       CheckInterval = (if CheckInterval c = 0 then DefaultCheckInterval pkg
                                        else CheckInterval c)\<rparr>
          \<and> m = Some \<lparr>started = 0, conn = None, cfg = c'\<rparr>
          \<and> connectionManager_IsRunning m = False)"
  by (simp add: setupConnectionManager_def connectionManager_IsRunning_def LoadInt32_def Let_def)

theorem setupConnectionManager_result_witness:
  "setupConnectionManager
      \<lparr>DefaultDNSList = Some [''8.8.8.8''], DefaultDomainList = Some [''www.google.com''],
       DefaultCheckInterval = 1000000000\<rparr> None = ((None, Some errNilConfig), None)
   \<and> setupConnectionManager
      \<lparr>DefaultDNSList = Some [''8.8.8.8''], DefaultDomainList = Some [''www.google.com''],
       DefaultCheckInterval = 1000000000\<rparr>
      (Some \<lparr>DNSList = Some [''1.1.1.1''], PublicDomainList = None, CheckInterval = 0\<rparr>) =
     ((Some \<lparr>started = 0, conn = None,
         cfg = Some \<lparr>DNSList = Some [''1.1.1.1''], PublicDomainList = Some [''www.google.com''],
                  CheckInterval = 1000000000\<rparr>\<rparr>, None),
      Some \<lparr>DNSList = Some [''1.1.1.1''], PublicDomainList = Some [''www.google.com''],
            CheckInterval = 1000000000\<rparr>)"
  using setupConnectionManager_result [of
      "\<lparr>DefaultDNSList = Some [''8.8.8.8''], DefaultDomainList = Some [''www.google.com''],
        DefaultCheckInterval = 1000000000\<rparr>"
      "\<lparr>DNSList = Some [''1.1.1.1''], PublicDomainList = None, CheckInterval = 0\<rparr>"]
  by (auto split: prod.splits)

text \<open>
  Claim C9. A manager whose flag is 1 while its checker is nil: \<open>Stop\<close> returns an error
  wrapping \<open>errConnectionCheckerIsNil\<close> (wrapping neither \<open>ErrSubSystemNotStarted\<close> nor
  \<open>ErrNilSubsystem\<close>), and the deferred swap still puts the flag back to 0; after that
  \<open>IsRunning\<close> is false and another \<open>Stop\<close> returns an error wrapping
  \<open>ErrSubSystemNotStarted\<close> and changes nothing.
\<close>

theorem Stop_with_nil_checker:
  assumes "started m = 1" and "conn m = None"
  shows "case connectionManager_Stop (Some m) of
           (r, m1, t) \<Rightarrow>
             (\<exists>e. r = Returns (Some e) \<and> errors_Is e errConnectionCheckerIsNil
                \<and> \<not> errors_Is e ErrSubSystemNotStarted \<and> \<not> errors_Is e ErrNilSubsystem)
             \<and> t = []
             \<and> m1 = Some (m\<lparr>started := 0\<rparr>)
             \<and> connectionManager_IsRunning m1 = False
             \<and> (case connectionManager_Stop m1 of
                  (r2, m2, t2) \<Rightarrow>
                    (\<exists>e. r2 = Returns (Some e) \<and> errors_Is e ErrSubSystemNotStarted)
                    \<and> m2 = m1 \<and> t2 = [])"
  using assms
  by (simp add: connectionManager_Stop_def connectionManager_IsRunning_def LoadInt32_def
      CompareAndSwapInt32_def)

theorem Stop_with_nil_checker_witness:
  "started \<lparr>started = 1, conn = None, cfg = None\<rparr> = 1
   \<and> conn \<lparr>started = 1, conn = None, cfg = None\<rparr> = None
   \<and> (case connectionManager_Stop (Some \<lparr>started = 1, conn = None, cfg = None\<rparr>) of
           (r, m1, t) \<Rightarrow>
             (\<exists>e. r = Returns (Some e) \<and> errors_Is e errConnectionCheckerIsNil
                \<and> \<not> errors_Is e ErrSubSystemNotStarted \<and> \<not> errors_Is e ErrNilSubsystem)
             \<and> t = []
             \<and> m1 = Some \<lparr>started = 0, conn = None, cfg = None\<rparr>
             \<and> connectionManager_IsRunning m1 = False
             \<and> (case connectionManager_Stop m1 of
                  (r2, m2, t2) \<Rightarrow>
                    (\<exists>e. r2 = Returns (Some e) \<and> errors_Is e ErrSubSystemNotStarted)
                    \<and> m2 = m1 \<and> t2 = []))"
  using Stop_with_nil_checker [of "\<lparr>started = 1, conn = None, cfg = None\<rparr>"] by simp

section \<open>Properties of the flags\<close>

text \<open>
  Claim C10. After \<open>WithBool\<close> on a non-nil \<open>flagValue\<close>, the boolean behind it is what it
  was when the flag set holds true for the key, and is \<open>configValue\<close> when the flag set holds
  false for the key or does not hold the key.
\<close>

theorem WithBool_flag_takes_precedence:
  "WithBool f key (Some v) configValue =
     Returns (if f key = Some True then v else configValue)"
  by (auto simp add: WithBool_def FlagSet_index_def split: option.splits)

theorem WithBool_flag_takes_precedence_witness:
  "WithBool [''dryrun'' \<mapsto> True] ''dryrun'' (Some False) True = Returns False
   \<and> WithBool [''dryrun'' \<mapsto> True] ''verbose'' (Some False) True = Returns True
   \<and> WithBool [''dryrun'' \<mapsto> False] ''dryrun'' (Some True) False = Returns False"
  using WithBool_flag_takes_precedence [of "[''dryrun'' \<mapsto> True]" "''dryrun''" False True]
    WithBool_flag_takes_precedence [of "[''dryrun'' \<mapsto> True]" "''verbose''" False True]
    WithBool_flag_takes_precedence [of "[''dryrun'' \<mapsto> False]" "''dryrun''" True False]
  by simp

section \<open>Properties of Engine.Start\<close>

text \<open>An event that no step produces is not among the events of running the steps.\<close>

lemma run_events:
  assumes "\<And>s b. s \<in> set ss \<Longrightarrow> e \<notin> set (snd (snd (s b)))"
  shows "e \<notin> set (snd (snd (run ss b)))"
  using assms
proof (induction ss arbitrary: b)
  case Nil
  show ?case by simp
next
  case (Cons s ss)
  have 1: "e \<notin> set (snd (snd (s b)))" using Cons.prems by simp
  have 2: "\<And>b'. e \<notin> set (snd (snd (run ss b')))" using Cons by simp
  show ?case
  proof (cases "s b")
    case (fields r b1 t1)
    then show ?thesis
      using 1 2 [of b1] by (cases r; cases "run ss b1") auto
  qed
qed

lemma connectionManager_Start_no_Call:
  "Call n \<notin> set (snd (snd (connectionManager_Start new m)))"
  by (auto simp add: connectionManager_Start_def CompareAndSwapInt32_def Let_def
      split: option.splits prod.splits)

lemma setup_and_start_no_Call:
  assumes "n \<noteq> sn" and "n \<noteq> stn"
  shows "Call n \<notin> set (snd (snd (setup_and_start w en mgr sn sm stn stm b)))"
  using assms
  by (auto simp add: setup_and_start_def call_logging_error_def Let_def split: option.splits)

text \<open>
  No statement of \<^verbatim>\<open>Engine.Start\<close> after the database manager's block starts the database
  manager.
\<close>

lemma DatabaseManager_Start_not_called_later:
  assumes "s \<in> set (Start_after_DatabaseManager w)"
  shows "Call ''bot.DatabaseManager.Start'' \<notin> set (snd (snd (s b)))"
proof -
  from assms consider
      "s = start_Dispatcher w" | "s = start_connectionManager w" | "s = start_NTPClient w"
    | "s = start_report w" | "s = start_SetupExchanges w" | "s = start_CommunicationsManager w"
    | "s = start_StorageUpdater w" | "s = start_portfolioManager w"
    | "s = start_dataHistoryManager w" | "s = start_WithdrawManager w" | "s = start_apiServer w"
    | "s = start_DepositAddressManager w" | "s = start_OrderManager w"
    | "s = start_currencyPairSyncer w" | "s = start_eventManager w"
    | "s = start_websocketRoutineManager w" | "s = start_gctScriptManager w"
    | "s = start_currencyStateManager w"
    unfolding Start_after_DatabaseManager_def by auto
  then show ?thesis
  proof cases
    case 1 then show ?thesis
      by (simp add: start_Dispatcher_def call_logging_error_def split: option.splits)
  next
    case 2
    obtain m err c' where su:
      "setupConnectionManager (connchecker_values w) (Some (ConnectionMonitor (Config b)))
         = ((m, err), c')"
      by (metis prod.exhaust)
    obtain r m' t where st: "connectionManager_Start (connchecker_New w) m = (r, m', t)"
      by (metis prod.exhaust)
    have "Call ''bot.DatabaseManager.Start'' \<notin> set t"
      using connectionManager_Start_no_Call [of "''bot.DatabaseManager.Start''"
          "connchecker_New w" m] st by simp
    then show ?thesis
      unfolding 2
      by (simp add: start_connectionManager_def su st Let_def
          split: option.splits outcome.splits)
  next
    case 3 then show ?thesis
      by (auto simp add: start_NTPClient_def call_logging_error_def
          split: option.splits prod.splits if_splits)
  next
    case 4 then show ?thesis
      by (auto simp add: start_report_def Let_def split: option.splits)
  next
    case 5 then show ?thesis
      by (simp add: start_SetupExchanges_def split: option.splits)
  next
    case 6 then show ?thesis
      by (simp add: start_CommunicationsManager_def setup_and_start_no_Call)
  next
    case 7 then show ?thesis
      by (simp add: start_StorageUpdater_def call_logging_error_def split: option.splits)
  next
    case 8 then show ?thesis
      by (simp add: start_portfolioManager_def setup_and_start_no_Call)
  next
    case 9 then show ?thesis
      by (simp add: start_dataHistoryManager_def setup_and_start_no_Call)
  next
    case 10 then show ?thesis
      by (simp add: start_WithdrawManager_def Let_def split: option.splits)
  next
    case 11 then show ?thesis
      by (auto simp add: start_apiServer_def call_logging_error_def Let_def
          split: option.splits)
  next
    case 12 then show ?thesis
      by (simp add: start_DepositAddressManager_def)
  next
    case 13 then show ?thesis
      by (simp add: start_OrderManager_def setup_and_start_no_Call)
  next
    case 14 then show ?thesis
      by (simp add: start_currencyPairSyncer_def Let_def split: option.splits)
  next
    case 15 then show ?thesis
      by (simp add: start_eventManager_def setup_and_start_no_Call)
  next
    case 16 then show ?thesis
      by (simp add: start_websocketRoutineManager_def setup_and_start_no_Call)
  next
    case 17 then show ?thesis
      by (simp add: start_gctScriptManager_def call_logging_error_def split: option.splits)
  next
    case 18 then show ?thesis
      by (simp add: start_currencyStateManager_def setup_and_start_no_Call)
  qed
qed

text \<open>
  Claim C1, as amended. When the database manager is enabled and its setup returns an error,
  \<^verbatim>\<open>Engine.Start\<close> does not end there: it logs the error, keeps whatever pointer the setup
  returned in \<^verbatim>\<open>bot.DatabaseManager\<close>, and goes on with the statements that follow (the
  dispatcher first), on which alone its own result depends; the database manager's \<^verbatim>\<open>Start\<close>
  is called nowhere.
\<close>

theorem Start_continues_after_database_setup_failure:
  assumes "EnableDatabaseManager (Settings b)"
    and "returns_error w ''SetupDatabaseConnectionManager'' = Some e"
  shows "case run (Start_after_DatabaseManager w)
                (b\<lparr>managers := (managers b)
                     (DatabaseManager := returns_handle w ''SetupDatabaseConnectionManager'')\<rparr>) of
           (r, b', t) \<Rightarrow>
             Engine_Start w (Some b) =
               locked None
                 (r, b',
                  Call ''SetupDatabaseConnectionManager''
                  # Errorf ''Database manager unable to setup: %v'' e # t)
             \<and> Call ''bot.DatabaseManager.Start'' \<notin> set t"
proof -
  define b1 where "b1 = b\<lparr>managers := (managers b)
       (DatabaseManager := returns_handle w ''SetupDatabaseConnectionManager'')\<rparr>"
  obtain r b' t where rest: "run (Start_after_DatabaseManager w) b1 = (r, b', t)"
    by (metis prod.exhaust)
  have first: "start_DatabaseManager w b =
      (None, b1,
       [Call ''SetupDatabaseConnectionManager'',
        Errorf ''Database manager unable to setup: %v'' e])"
    using assms by (simp add: start_DatabaseManager_def setup_and_start_def b1_def Let_def)
  have "Call ''bot.DatabaseManager.Start''
          \<notin> set (snd (snd (run (Start_after_DatabaseManager w) b1)))"
    by (rule run_events) (rule DatabaseManager_Start_not_called_later)
  then have "Call ''bot.DatabaseManager.Start'' \<notin> set t"
    by (simp add: rest)
  moreover have "Engine_Start w (Some b) =
      locked None
        (r, b',
         Call ''SetupDatabaseConnectionManager''
         # Errorf ''Database manager unable to setup: %v'' e # t)"
    by (simp add: Engine_Start_def first rest)
  ultimately show ?thesis
    unfolding b1_def [symmetric] rest by simp
qed

theorem Start_continues_after_database_setup_failure_witness:
  "EnableDatabaseManager
     (Settings (fresh_Engine (quiet_Settings\<lparr>EnableDatabaseManager := True\<rparr>)))
   \<and> returns_error
       (failing_world ''SetupDatabaseConnectionManager'' (errors_New ''connection refused''))
       ''SetupDatabaseConnectionManager'' = Some (errors_New ''connection refused'')
   \<and> (case run (Start_after_DatabaseManager
                  (failing_world ''SetupDatabaseConnectionManager''
                     (errors_New ''connection refused'')))
              ((fresh_Engine (quiet_Settings\<lparr>EnableDatabaseManager := True\<rparr>))
                 \<lparr>managers :=
                    (managers (fresh_Engine (quiet_Settings\<lparr>EnableDatabaseManager := True\<rparr>)))
                    (DatabaseManager :=
                       returns_handle
                         (failing_world ''SetupDatabaseConnectionManager''
                            (errors_New ''connection refused''))
                         ''SetupDatabaseConnectionManager'')\<rparr>) of
         (r, b', t) \<Rightarrow>
           Engine_Start
             (failing_world ''SetupDatabaseConnectionManager'' (errors_New ''connection refused''))
             (Some (fresh_Engine (quiet_Settings\<lparr>EnableDatabaseManager := True\<rparr>))) =
             locked None
               (r, b',
                Call ''SetupDatabaseConnectionManager''
                # Errorf ''Database manager unable to setup: %v''
                    (errors_New ''connection refused'') # t)
           \<and> Call ''bot.DatabaseManager.Start'' \<notin> set t)"
proof -
  have 1: "EnableDatabaseManager
     (Settings (fresh_Engine (quiet_Settings\<lparr>EnableDatabaseManager := True\<rparr>)))"
    by (simp add: fresh_Engine_def)
  have 2: "returns_error
       (failing_world ''SetupDatabaseConnectionManager'' (errors_New ''connection refused''))
       ''SetupDatabaseConnectionManager'' = Some (errors_New ''connection refused'')"
    by (simp add: failing_world_def)
  show ?thesis
    by (intro conjI 1 2 Start_continues_after_database_setup_failure [OF 1 2])
qed

text \<open>
  Claim C1 as stated fails: with the database manager and the dispatcher enabled and the
  database setup returning an error, \<^verbatim>\<open>Engine.Start\<close> logs the error, starts the dispatcher,
  completes the rest of the start-up and returns nil.
\<close>

theorem Start_returns_nil_after_database_setup_failure:
  "fst (Engine_Start
          (failing_world ''SetupDatabaseConnectionManager'' (errors_New ''connection refused''))
          (Some (fresh_Engine
                   (quiet_Settings\<lparr>EnableDatabaseManager := True, EnableDispatcher := True\<rparr>))))
     = Returns None
   \<and> snd (snd (Engine_Start
          (failing_world ''SetupDatabaseConnectionManager'' (errors_New ''connection refused''))
          (Some (fresh_Engine
                   (quiet_Settings\<lparr>EnableDatabaseManager := True, EnableDispatcher := True\<rparr>)))))
     = [Lock, Call ''SetupDatabaseConnectionManager'',
        Errorf ''Database manager unable to setup: %v'' (errors_New ''connection refused''),
        Call ''dispatch.Start'',
        Debugf ''Bot '%s' started.'', Debugf ''Using data dir: %s'',
        Debugf ''Using %d out of %d logical processors for runtime performance'',
        Call ''bot.Config.CountEnabledExchanges'',
        Debugln ''EXCHANGE COVERAGE'',
        Debugf ''Available Exchanges: %d. Enabled Exchanges: %d.'',
        Debugln ''Setting up exchanges..'',
        Call ''bot.SetupExchanges'', Call ''currency.RunStorageUpdater'',
        Call ''SetupWithdrawManager'', Unlock]"
  by (simp add: Engine_Start_def Start_after_DatabaseManager_def locked_def
      start_DatabaseManager_def setup_and_start_def call_logging_error_def
      start_Dispatcher_def start_connectionManager_def start_NTPClient_def start_report_def
      start_SetupExchanges_def start_CommunicationsManager_def start_StorageUpdater_def
      start_portfolioManager_def start_dataHistoryManager_def start_WithdrawManager_def
      start_apiServer_def start_DepositAddressManager_def start_OrderManager_def
      start_currencyPairSyncer_def start_eventManager_def start_websocketRoutineManager_def
      start_gctScriptManager_def start_currencyStateManager_def
      failing_world_def fresh_Engine_def quiet_Settings_def plain_Config_def Let_def)

section \<open>Properties of Engine.Stop\<close>

lemma run_append:
  "run (xs @ ys) b =
     (case run xs b of
        (None, b1, t1) \<Rightarrow> (case run ys b1 of (r, b2, t2) \<Rightarrow> (r, b2, t1 @ t2))
      | (Some r, b1, t1) \<Rightarrow> (Some r, b1, t1))"
  by (induction xs arbitrary: b) (auto split: prod.splits option.splits)

text \<open>Each block of the subsystem phase produces the events of its table entry.\<close>

lemma stop_if_running_block:
  "stop_if_running w mgr q s msg b = (None, b, block_events (managed w b mgr q s msg))"
  by (simp add: stop_if_running_def block_events_def managed_def call_logging_error_def
      split: option.splits)

lemma stop_dispatch_block:
  "stop_dispatch w b =
     (None, b,
      block_events \<lparr>query_call = ''dispatch.IsRunning'', stop_call = ''dispatch.Stop'',
       log_message = ''Dispatch system unable to stop. Error: %v'',
       is_running = returns_bool w ''dispatch.IsRunning'',
       stop_events = [], stop_error = returns_error w ''dispatch.Stop''\<rparr>)"
  by (simp add: stop_dispatch_def block_events_def call_logging_error_def split: option.splits)

lemma connectionManager_Stop_returns:
  "\<exists>e. fst (connectionManager_Stop m) = Returns e"
  by (simp add: connectionManager_Stop_def Let_def split: option.splits)

lemma stop_connectionManager_block:
  "stop_connectionManager b =
     (None, after_Stop b,
      block_events \<lparr>query_call = ''bot.connectionManager.IsRunning'',
       stop_call = ''bot.connectionManager.Stop'',
       log_message = ''Connection manager unable to stop. Error: %v'',
       is_running = connectionManager_IsRunning (connectionManager b),
       stop_events = snd (snd (connectionManager_Stop (connectionManager b))),
       stop_error = (case fst (connectionManager_Stop (connectionManager b)) of
                       Returns e \<Rightarrow> e | _ \<Rightarrow> None)\<rparr>)"
proof -
  obtain e where "fst (connectionManager_Stop (connectionManager b)) = Returns e"
    using connectionManager_Stop_returns by blast
  then show ?thesis
    by (cases "connectionManager_Stop (connectionManager b)"; cases e)
       (simp_all add: stop_connectionManager_def block_events_def after_Stop_def Let_def)
qed

lemma managed_after_Stop: "managed w (after_Stop b) = managed w b"
  by (rule ext)+ (simp add: managed_def after_Stop_def)

lemma run_Stop_subsystems:
  "run (Stop_subsystems w) b = (None, after_Stop b, concat (map block_events (Stop_table w b)))"
  by (simp add: Stop_subsystems_def Stop_table_def stop_if_running_block stop_dispatch_block
      stop_connectionManager_block managed_after_Stop)

lemma stop_snapshot_available:
  assumes "snapshot_available w b"
  shows "stop_snapshot w b =
           (None, after_snapshot w b,
            [Debugln ''Engine shutting down..'', Call ''bot.portfolioManager.GetAddresses'']
            @ (if portfolioManager_GetAddresses w (managers b portfolioManager) = [] then []
               else [Call ''bot.portfolioManager.GetPortfolio'']))"
  using assms
  by (auto simp add: stop_snapshot_def snapshot_available_def after_snapshot_def)

lemma Stop_table_after_snapshot: "Stop_table w (after_snapshot w b) = Stop_table w b"
  by (simp add: Stop_table_def managed_def after_snapshot_def split: option.splits)

lemma Settings_after: "Settings (after_Stop (after_snapshot w b)) = Settings b"
  by (simp add: after_Stop_def after_snapshot_def split: option.splits)

text \<open>The whole of \<^verbatim>\<open>Engine.Stop\<close> when the snapshot does not panic.\<close>

lemma Engine_Stop_events:
  assumes "snapshot_available w b"
  shows "Engine_Stop w (Some b) =
           ((if ServicesWG_drains w then Returns () else Blocks),
            Some (after_Stop (after_snapshot w b)),
            Lock # before_save w b @ save_events w b
            @ ServicesWG_Wait
              # (if ServicesWG_drains w
                 then Call ''gctlog.CloseLogger'' # close_report w @ [Unlock] else []))"
  by (simp add: Engine_Stop_def run_append run_Stop_subsystems
      stop_snapshot_available [OF assms] Stop_table_after_snapshot Settings_after
      stop_StorageUpdater_def stop_SaveConfig_def stop_Wait_def stop_CloseLogger_def
      locked_def before_save_def save_events_def close_report_def
      split: option.splits)

text \<open>What the events of \<^verbatim>\<open>Engine.Stop\<close> contain, entry by entry of the table.\<close>

lemma directly_follows_append:
  "directly_follows x y (pre @ x # y # post)"
proof (induction pre)
  case Nil
  show ?case by simp
next
  case (Cons a pre)
  then show ?case by (cases "pre @ x # y # post") auto
qed

lemma Call_in_block:
  "Call n \<in> set (block_events x) \<longleftrightarrow>
     n = query_call x \<or> is_running x \<and> (n = stop_call x \<or> Call n \<in> set (stop_events x))"
  by (auto simp add: block_events_def split: option.splits)

lemma Errorf_in_block:
  "Errorf m e \<in> set (block_events x) \<longleftrightarrow>
     is_running x
     \<and> (Errorf m e \<in> set (stop_events x) \<or> m = log_message x \<and> stop_error x = Some e)"
  by (auto simp add: block_events_def split: option.splits)

lemma connectionManager_Stop_quiet:
  "Call n \<notin> set (snd (snd (connectionManager_Stop m)))"
  "Errorf s e \<notin> set (snd (snd (connectionManager_Stop m)))"
  "ServicesWG_Wait \<notin> set (snd (snd (connectionManager_Stop m)))"
  by (simp_all add: connectionManager_Stop_def Let_def split: option.splits)

lemma Stop_table_quiet:
  assumes "x \<in> set (Stop_table w b)"
  shows "Call n \<notin> set (stop_events x)" and "Errorf s e \<notin> set (stop_events x)"
    and "ServicesWG_Wait \<notin> set (stop_events x)"
  using assms
  by (auto simp add: Stop_table_def managed_def connectionManager_Stop_quiet)

lemma Stop_table_names:
  "distinct (map query_call (Stop_table w b) @ map stop_call (Stop_table w b) @ other_calls)"
  by (simp add: Stop_table_def managed_def other_calls_def)

lemma Stop_table_messages:
  "distinct (''ExchangeSettings storage system. Error: %v''
             # map log_message (Stop_table w b))"
  by (simp add: Stop_table_def managed_def)

lemma Stop_table_facts:
  assumes "x \<in> set (Stop_table w b)"
  shows "stop_call x \<notin> set other_calls" and "query_call x \<notin> set other_calls"
    and "\<And>y. y \<in> set (Stop_table w b) \<Longrightarrow> stop_call x \<noteq> query_call y"
    and "\<And>y. y \<in> set (Stop_table w b) \<Longrightarrow> stop_call y = stop_call x \<Longrightarrow> y = x"
    and "\<And>y. y \<in> set (Stop_table w b) \<Longrightarrow> log_message y = log_message x \<Longrightarrow> y = x"
    and "log_message x \<noteq> ''ExchangeSettings storage system. Error: %v''"
proof -
  have d: "distinct (map query_call (Stop_table w b) @ map stop_call (Stop_table w b)
                     @ other_calls)"
    by (rule Stop_table_names)
  have m: "distinct (''ExchangeSettings storage system. Error: %v''
             # map log_message (Stop_table w b))"
    by (rule Stop_table_messages)
  from d assms show "stop_call x \<notin> set other_calls" by auto
  from d assms show "query_call x \<notin> set other_calls" by auto
  from d assms show "\<And>y. y \<in> set (Stop_table w b) \<Longrightarrow> stop_call x \<noteq> query_call y"
    by (metis (no_types, lifting) IntI distinct_append empty_iff image_eqI set_append set_map UnI1)
  from d have "inj_on stop_call (set (Stop_table w b))"
    by (simp add: distinct_map)
  with assms show "\<And>y. y \<in> set (Stop_table w b) \<Longrightarrow> stop_call y = stop_call x \<Longrightarrow> y = x"
    by (auto dest: inj_onD)
  from m have "inj_on log_message (set (Stop_table w b))"
    by (simp add: distinct_map)
  with assms show "\<And>y. y \<in> set (Stop_table w b) \<Longrightarrow> log_message y = log_message x \<Longrightarrow> y = x"
    by (auto dest: inj_onD)
  from m assms show "log_message x \<noteq> ''ExchangeSettings storage system. Error: %v''"
    by (metis distinct.simps(2) image_eqI set_map)
qed

lemma Call_in_blocks:
  "Call n \<in> set (concat (map block_events (Stop_table w b))) \<longleftrightarrow>
     (\<exists>y \<in> set (Stop_table w b). n = query_call y \<or> is_running y \<and> n = stop_call y)"
  by (auto simp add: Call_in_block Stop_table_quiet)

lemma Errorf_in_blocks:
  "Errorf m e \<in> set (concat (map block_events (Stop_table w b))) \<longleftrightarrow>
     (\<exists>y \<in> set (Stop_table w b). is_running y \<and> m = log_message y \<and> stop_error y = Some e)"
  by (auto simp add: Errorf_in_block Stop_table_quiet)

lemma Call_in_before_save:
  "Call n \<in> set (before_save w b) \<longleftrightarrow>
     n = ''bot.portfolioManager.GetAddresses''
     \<or> (n = ''bot.portfolioManager.GetPortfolio''
        \<and> portfolioManager_GetAddresses w (managers b portfolioManager) \<noteq> [])
     \<or> n = ''currency.ShutdownStorageUpdater''
     \<or> (\<exists>y \<in> set (Stop_table w b). n = query_call y \<or> is_running y \<and> n = stop_call y)"
  unfolding before_save_def set_append Un_iff Call_in_blocks
  by (auto simp add: call_logging_error_def split: option.splits)

lemma Call_in_rest:
  "Call n \<in> set (save_events w b @ ServicesWG_Wait
              # (if ServicesWG_drains w
                 then Call ''gctlog.CloseLogger'' # close_report w @ [Unlock] else []))
   \<Longrightarrow> n \<in> set other_calls"
  by (auto simp add: save_events_def close_report_def other_calls_def
      split: option.splits if_splits)

lemma Errorf_in_before_save:
  "Errorf m e \<in> set (before_save w b) \<longleftrightarrow>
     (m = ''ExchangeSettings storage system. Error: %v''
        \<and> returns_error w ''currency.ShutdownStorageUpdater'' = Some e)
     \<or> (\<exists>y \<in> set (Stop_table w b). is_running y \<and> m = log_message y \<and> stop_error y = Some e)"
  unfolding before_save_def set_append Un_iff Errorf_in_blocks
  by (auto simp add: call_logging_error_def split: option.splits)

lemma Errorf_not_in_rest:
  "Errorf m e \<notin> set (save_events w b @ ServicesWG_Wait
              # (if ServicesWG_drains w
                 then Call ''gctlog.CloseLogger'' # close_report w @ [Unlock] else []))"
  by (auto simp add: save_events_def close_report_def split: option.splits if_splits)

lemma blocks_directly_follow:
  assumes "x \<in> set tbl" and "is_running x"
  shows "\<exists>pre post. concat (map block_events tbl)
           = pre @ Call (query_call x) # Call (stop_call x) # post"
proof -
  from assms(1) obtain ys zs where "tbl = ys @ x # zs"
    by (auto dest: split_list)
  then have "concat (map block_events tbl) =
      concat (map block_events ys)
      @ Call (query_call x) # Call (stop_call x)
        # (stop_events x
           @ (case stop_error x of None \<Rightarrow> [] | Some e \<Rightarrow> [Errorf (log_message x) e])
           @ concat (map block_events zs))"
    using assms(2) by (simp add: block_events_def)
  then show ?thesis by blast
qed

lemma query_in_events:
  "x \<in> set (Stop_table w b) \<Longrightarrow> Call (query_call x) \<in> set (Lock # before_save w b @ rest)"
  by (auto simp add: Call_in_before_save)

lemma stop_in_before_save:
  assumes x: "x \<in> set (Stop_table w b)"
  shows "Call (stop_call x) \<in> set (before_save w b) \<longleftrightarrow> is_running x"
proof
  assume "Call (stop_call x) \<in> set (before_save w b)"
  then consider "stop_call x \<in> set other_calls"
    | y where "y \<in> set (Stop_table w b)" "stop_call x = query_call y"
    | y where "y \<in> set (Stop_table w b)" "is_running y" "stop_call x = stop_call y"
    unfolding Call_in_before_save other_calls_def by auto
  then show "is_running x"
  proof cases
    case 1
    then show ?thesis using Stop_table_facts(1) [OF x] by simp
  next
    case 2
    then show ?thesis using Stop_table_facts(3) [OF x] by blast
  next
    case 3
    then show ?thesis using Stop_table_facts(4) [OF x, of y] by auto
  qed
next
  assume "is_running x"
  then show "Call (stop_call x) \<in> set (before_save w b)"
    unfolding Call_in_before_save using x by blast
qed

lemma stop_not_in_rest:
  assumes x: "x \<in> set (Stop_table w b)"
  shows "Call (stop_call x) \<notin> set (save_events w b @ ServicesWG_Wait
              # (if ServicesWG_drains w
                 then Call ''gctlog.CloseLogger'' # close_report w @ [Unlock] else []))"
  using Call_in_rest [of "stop_call x" w b] Stop_table_facts(1) [OF x] by blast

lemma stop_follows_query:
  assumes x: "x \<in> set (Stop_table w b)" and r: "is_running x"
  shows "directly_follows (Call (query_call x)) (Call (stop_call x))
           (Lock # before_save w b @ rest)"
proof -
  obtain pre post where c:
    "concat (map block_events (Stop_table w b))
       = pre @ Call (query_call x) # Call (stop_call x) # post"
    using blocks_directly_follow [OF x r] by blast
  define pre' where "pre' = Lock # [Debugln ''Engine shutting down..'',
       Call ''bot.portfolioManager.GetAddresses'']
     @ (if portfolioManager_GetAddresses w (managers b portfolioManager) = [] then []
        else [Call ''bot.portfolioManager.GetPortfolio'']) @ pre"
  define post' where "post' = post @ call_logging_error w ''currency.ShutdownStorageUpdater''
         ''ExchangeSettings storage system. Error: %v'' @ rest"
  have "Lock # before_save w b @ rest
          = pre' @ Call (query_call x) # Call (stop_call x) # post'"
    unfolding before_save_def c pre'_def post'_def by simp
  then show ?thesis
    by (simp only: directly_follows_append)
qed

lemma error_log_in_before_save:
  assumes x: "x \<in> set (Stop_table w b)"
  shows "Errorf (log_message x) e \<in> set (before_save w b)
            \<longleftrightarrow> is_running x \<and> stop_error x = Some e"
proof
  assume "Errorf (log_message x) e \<in> set (before_save w b)"
  then consider "log_message x = ''ExchangeSettings storage system. Error: %v''"
    | y where "y \<in> set (Stop_table w b)" "is_running y" "log_message x = log_message y"
        "stop_error y = Some e"
    unfolding Errorf_in_before_save by blast
  then show "is_running x \<and> stop_error x = Some e"
  proof cases
    case 1
    then show ?thesis using Stop_table_facts(6) [OF x] by simp
  next
    case 2
    then show ?thesis using Stop_table_facts(5) [OF x, of y] by auto
  qed
next
  assume "is_running x \<and> stop_error x = Some e"
  then show "Errorf (log_message x) e \<in> set (before_save w b)"
    unfolding Errorf_in_before_save using x by blast
qed

lemma subsystems_in_before_save:
  "\<forall>x \<in> set (Stop_table w b).
     Call (query_call x) \<in> set (before_save w b)
     \<and> (is_running x \<longrightarrow> Call (stop_call x) \<in> set (before_save w b))"
  unfolding Call_in_before_save by blast

lemma other_call_not_in_before_save:
  assumes "n \<in> set other_calls" and "n \<noteq> ''bot.portfolioManager.GetAddresses''"
    and "n \<noteq> ''bot.portfolioManager.GetPortfolio''" and "n \<noteq> ''currency.ShutdownStorageUpdater''"
  shows "Call n \<notin> set (before_save w b)"
proof
  assume "Call n \<in> set (before_save w b)"
  then obtain y where y: "y \<in> set (Stop_table w b)" "n = query_call y \<or> n = stop_call y"
    unfolding Call_in_before_save using assms(2-4) by blast
  then show False
    using Stop_table_facts(1,2) [OF y(1)] assms(1) by auto
qed

lemma Wait_not_in_before_save: "ServicesWG_Wait \<notin> set (before_save w b)"
  by (auto simp add: before_save_def call_logging_error_def block_events_def
      Stop_table_quiet split: option.splits if_splits)

text \<open>
  Claim C5. On an engine whose portfolio snapshot does not dereference a nil pointer (which
  is so whenever the portfolio manager is nil), with any of the other subsystem fields nil
  or not, \<^verbatim>\<open>Engine.Stop\<close> does not panic; it begins with the \<^verbatim>\<open>GetAddresses\<close> call; and for
  every subsystem of the table, whatever the stop calls of the others return: the
  \<^verbatim>\<open>IsRunning\<close> query is made; the stop call is made exactly when the query answered true, and
  then directly after the query; an error of the stop call is logged under that subsystem's
  message, and nothing is logged under it otherwise. \<^verbatim>\<open>Engine.Stop\<close> has no result through
  which an error could be passed on: it returns, or stays at the wait on \<^verbatim>\<open>ServicesWG\<close>,
  whatever the stop calls returned.
\<close>

theorem Stop_attempts_every_subsystem:
  assumes "snapshot_available w b"
  shows "case Engine_Stop w (Some b) of
           (r, b', t) \<Rightarrow>
             r \<noteq> Panics
             \<and> r = (if ServicesWG_drains w then Returns () else Blocks)
             \<and> take 3 t = [Lock, Debugln ''Engine shutting down..'',
                           Call ''bot.portfolioManager.GetAddresses'']
             \<and> (\<forall>x \<in> set (Stop_table w b).
                  Call (query_call x) \<in> set t
                  \<and> (Call (stop_call x) \<in> set t \<longleftrightarrow> is_running x)
                  \<and> (is_running x \<longrightarrow>
                       directly_follows (Call (query_call x)) (Call (stop_call x)) t)
                  \<and> (\<forall>e. Errorf (log_message x) e \<in> set t
                         \<longleftrightarrow> is_running x \<and> stop_error x = Some e))"
proof -
  define rest where "rest = save_events w b @ ServicesWG_Wait
              # (if ServicesWG_drains w
                 then Call ''gctlog.CloseLogger'' # close_report w @ [Unlock] else [])"
  define t where "t = Lock # before_save w b @ rest"
  have ev: "Engine_Stop w (Some b) =
     ((if ServicesWG_drains w then Returns () else Blocks),
      Some (after_Stop (after_snapshot w b)), t)"
    unfolding t_def rest_def using Engine_Stop_events [OF assms] by simp
  have first: "take 3 t = [Lock, Debugln ''Engine shutting down..'',
                           Call ''bot.portfolioManager.GetAddresses'']"
    unfolding t_def before_save_def by simp
  have "Call (query_call x) \<in> set t
        \<and> (Call (stop_call x) \<in> set t \<longleftrightarrow> is_running x)
        \<and> (is_running x \<longrightarrow> directly_follows (Call (query_call x)) (Call (stop_call x)) t)
        \<and> (\<forall>e. Errorf (log_message x) e \<in> set t \<longleftrightarrow> is_running x \<and> stop_error x = Some e)"
    if x: "x \<in> set (Stop_table w b)" for x
  proof (intro conjI allI impI)
    show "Call (query_call x) \<in> set t"
      unfolding t_def by (rule query_in_events [OF x])
    have "Call (stop_call x) \<notin> set rest"
      unfolding rest_def by (rule stop_not_in_rest [OF x])
    then show "Call (stop_call x) \<in> set t \<longleftrightarrow> is_running x"
      unfolding t_def using stop_in_before_save [OF x] by simp
    show "directly_follows (Call (query_call x)) (Call (stop_call x)) t" if "is_running x"
      unfolding t_def by (rule stop_follows_query [OF x that])
    show "Errorf (log_message x) e \<in> set t \<longleftrightarrow> is_running x \<and> stop_error x = Some e" for e
    proof -
      have "Errorf (log_message x) e \<notin> set rest"
        unfolding rest_def by (rule Errorf_not_in_rest)
      then show ?thesis
        unfolding t_def using error_log_in_before_save [OF x, of e] by simp
    qed
  qed
  with first show ?thesis
    unfolding ev by simp
qed

theorem Stop_attempts_every_subsystem_witness:
  "snapshot_available
     (failing_world ''bot.gctScriptManager.Stop'' (errors_New ''script still running''))
     two_running
   \<and> (case Engine_Stop
             (failing_world ''bot.gctScriptManager.Stop'' (errors_New ''script still running''))
             (Some two_running) of
        (r, b', t) \<Rightarrow>
          r \<noteq> Panics
          \<and> Errorf ''GCTScript manager unable to stop. Error: %v''
               (errors_New ''script still running'') \<in> set t
          \<and> Call ''bot.currencyStateManager.Stop'' \<in> set t
          \<and> Call ''bot.OrderManager.IsRunning'' \<in> set t
          \<and> Call ''bot.OrderManager.Stop'' \<notin> set t)"
proof -
  define w where "w = failing_world ''bot.gctScriptManager.Stop'' (errors_New ''script still running'')"
  have s: "snapshot_available w two_running"
    by (simp add: snapshot_available_def two_running_def fresh_Engine_def
        portfolioManager_GetAddresses_def)
  have x1: "managed w two_running gctScriptManager ''bot.gctScriptManager.IsRunning''
              ''bot.gctScriptManager.Stop'' ''GCTScript manager unable to stop. Error: %v''
            \<in> set (Stop_table w two_running)"
    and x2: "managed w two_running currencyStateManager ''bot.currencyStateManager.IsRunning''
              ''bot.currencyStateManager.Stop''
              ''currency state manager unable to stop. Error: %v''
            \<in> set (Stop_table w two_running)"
    and x3: "managed w two_running OrderManager ''bot.OrderManager.IsRunning''
              ''bot.OrderManager.Stop'' ''Order manager unable to stop. Error: %v''
            \<in> set (Stop_table w two_running)"
    by (simp_all add: Stop_table_def)
  obtain r b' t where e: "Engine_Stop w (Some two_running) = (r, b', t)"
    by (metis prod.exhaust)
  have all: "r \<noteq> Panics \<and> (\<forall>x \<in> set (Stop_table w two_running).
                  Call (query_call x) \<in> set t
                  \<and> (Call (stop_call x) \<in> set t \<longleftrightarrow> is_running x)
                  \<and> (\<forall>e. Errorf (log_message x) e \<in> set t
                         \<longleftrightarrow> is_running x \<and> stop_error x = Some e))"
    using Stop_attempts_every_subsystem [OF s] unfolding e by simp
  have "Errorf ''GCTScript manager unable to stop. Error: %v''
               (errors_New ''script still running'') \<in> set t"
    using all x1
    by (auto simp add: managed_def manager_IsRunning_def two_running_def w_def
        failing_world_def)
  moreover have "Call ''bot.currencyStateManager.Stop'' \<in> set t"
    using all x2
    by (auto simp add: managed_def manager_IsRunning_def two_running_def w_def
        failing_world_def)
  moreover have "Call ''bot.OrderManager.IsRunning'' \<in> set t
      \<and> Call ''bot.OrderManager.Stop'' \<notin> set t"
    using all x3
    by (auto simp add: managed_def manager_IsRunning_def two_running_def w_def
        failing_world_def)
  ultimately show ?thesis
    using s all unfolding w_def [symmetric] e by simp
qed

text \<open>
  Claim C6. When the snapshot does not panic, the events of \<^verbatim>\<open>Engine.Stop\<close> are: first a
  part that holds the query of every subsystem and the stop call of every running one, and
  holds neither the save, nor the wait, nor the closing of the logger; then the save of the
  configuration exactly when \<open>EnableDryRun\<close> is false, with one log line for its success or
  failure; then the wait on \<^verbatim>\<open>ServicesWG\<close>, at which \<^verbatim>\<open>Engine.Stop\<close> stays for ever unless the
  counter reaches zero; then \<^verbatim>\<open>CloseLogger\<close> as the last step: no save, wait, collaborator
  call or engine log line comes after it, only the report of its own failure within the same
  statement (through the standard library's logger, the engine's being closed) and the
  deferred unlock of the engine mutex as the function returns.
\<close>

theorem Stop_saves_waits_closes:
  assumes "snapshot_available w b"
  shows "case Engine_Stop w (Some b) of
           (r, b', t) \<Rightarrow>
             r = (if ServicesWG_drains w then Returns () else Blocks)
             \<and> (\<exists>pre.
                  t = Lock # pre @ save_events w b
                      @ ServicesWG_Wait
                        # (if ServicesWG_drains w
                           then Call ''gctlog.CloseLogger'' # close_report w @ [Unlock]
                           else [])
                  \<and> (\<forall>x \<in> set (Stop_table w b).
                        Call (query_call x) \<in> set pre
                        \<and> (is_running x \<longrightarrow> Call (stop_call x) \<in> set pre))
                  \<and> Call ''bot.Config.SaveConfigToFile'' \<notin> set pre
                  \<and> ServicesWG_Wait \<notin> set pre
                  \<and> Call ''gctlog.CloseLogger'' \<notin> set pre)"
proof -
  have 2: "Call ''bot.Config.SaveConfigToFile'' \<notin> set (before_save w b)"
    by (rule other_call_not_in_before_save) (simp_all add: other_calls_def)
  have 3: "Call ''gctlog.CloseLogger'' \<notin> set (before_save w b)"
    by (rule other_call_not_in_before_save) (simp_all add: other_calls_def)
  have "\<exists>pre.
          Lock # before_save w b @ save_events w b
            @ ServicesWG_Wait
              # (if ServicesWG_drains w
                 then Call ''gctlog.CloseLogger'' # close_report w @ [Unlock] else [])
          = Lock # pre @ save_events w b
              @ ServicesWG_Wait
                # (if ServicesWG_drains w
                   then Call ''gctlog.CloseLogger'' # close_report w @ [Unlock]
                   else [])
          \<and> (\<forall>x \<in> set (Stop_table w b).
                Call (query_call x) \<in> set pre
                \<and> (is_running x \<longrightarrow> Call (stop_call x) \<in> set pre))
          \<and> Call ''bot.Config.SaveConfigToFile'' \<notin> set pre
          \<and> ServicesWG_Wait \<notin> set pre
          \<and> Call ''gctlog.CloseLogger'' \<notin> set pre"
    using subsystems_in_before_save [of w b] 2 3 Wait_not_in_before_save [of w b] by blast
  then show ?thesis
    unfolding Engine_Stop_events [OF assms] by simp
qed

theorem Stop_saves_waits_closes_witness:
  "snapshot_available
     (failing_world ''bot.Config.SaveConfigToFile'' (errors_New ''disk full''))
     (fresh_Engine quiet_Settings)
   \<and> (case Engine_Stop
             (failing_world ''bot.Config.SaveConfigToFile'' (errors_New ''disk full''))
             (Some (fresh_Engine quiet_Settings)) of
        (r, b', t) \<Rightarrow>
          r = Returns ()
          \<and> (\<exists>pre.
               t = Lock # pre
                   @ [Call ''bot.Config.SaveConfigToFile'', Errorln ''Unable to save config.'',
                      ServicesWG_Wait, Call ''gctlog.CloseLogger'', Unlock]
               \<and> Call ''bot.Config.SaveConfigToFile'' \<notin> set pre
               \<and> ServicesWG_Wait \<notin> set pre
               \<and> Call ''gctlog.CloseLogger'' \<notin> set pre))"
proof -
  define w where "w = failing_world ''bot.Config.SaveConfigToFile'' (errors_New ''disk full'')"
  define b where "b = fresh_Engine quiet_Settings"
  have s: "snapshot_available w b"
    by (simp add: snapshot_available_def b_def fresh_Engine_def
        portfolioManager_GetAddresses_def)
  have v: "ServicesWG_drains w"
    "save_events w b
       = [Call ''bot.Config.SaveConfigToFile'', Errorln ''Unable to save config.'']"
    "close_report w = []"
    by (simp_all add: w_def b_def failing_world_def save_events_def close_report_def
        fresh_Engine_def quiet_Settings_def)
  show ?thesis
    using s Stop_saves_waits_closes [OF s]
    unfolding w_def [symmetric] b_def [symmetric]
    by (auto simp add: v split: prod.splits)
qed

end
